theory Spec2Isabelle
  imports Complex_Main "HOL-Library.Sublist"
begin

section \<open>The DDGR binary model: relativistic Kepler solver\<close>

text \<open>
  Source: \<^verbatim>\<open>src/pint/models/stand_alone_psr_binaries/DDGR_model.py\<close>.

  An astropy quantity is idealised as the real number that is its magnitude in one coherent
  system of units, so \<^verbatim>\<open>.to(...)\<close> and \<^verbatim>\<open>.decompose()\<close> leave the number as it is.
  The constants \<^verbatim>\<open>c.G\<close> and \<^verbatim>\<open>c.c\<close> come from astropy, not from this repository: every
  function that uses them takes them as the parameters \<open>G\<close> and \<open>c\<close>.
  A float power \<^verbatim>\<open>x ** (2.0 / 3)\<close> is \<open>x powr (2/3)\<close>, an integer power \<^verbatim>\<open>x ** 2\<close> is \<open>x ^ 2\<close>.
  For a negative base numpy yields nan where \<open>powr\<close> yields \<open>\<bar>x\<bar> powr y\<close>; the two agree on
  non-negative bases.
\<close>

definition G_SI :: real where
  \<comment> \<open>CODATA 2018 gravitational constant in SI units (m^3 / (kg s^2)), the value astropy ships.\<close>
  "G_SI = 66743 / 10 ^ 15"

definition c_SI :: real where
  \<comment> \<open>Speed of light in m / s.\<close>
  "c_SI = 299792458"

definition kepler_rhs :: "real \<Rightarrow> real \<Rightarrow> real \<Rightarrow> real \<Rightarrow> real \<Rightarrow> real \<Rightarrow> real" where
  \<comment> \<open>The right-hand side of Taylor and Weisberg (1989), Eqn. 15, which the source writes
      out twice (lines 42-44 and 48-50).\<close>
  "kepler_rhs G c M1 M2 arr0 arr =
     (let MTOT = M1 + M2
      in arr0 * (1 + (M1 * M2 / MTOT\<^sup>2 - 9) * (G * MTOT / (2 * arr * c\<^sup>2))) powr (2 / 3))"

definition kepler_cond :: "real \<Rightarrow> real \<Rightarrow> real \<Rightarrow> bool" where
  \<comment> \<open>\<^verbatim>\<open>np.fabs((arr - arr_old) / arr) > ARTOL\<close>. numpy does not raise on a zero divisor:
      a non-zero numerator gives an infinity, which exceeds every tolerance, and 0/0 gives
      nan, which compares false.\<close>
  "kepler_cond ARTOL arr_old arr =
     (if arr = 0 then arr - arr_old \<noteq> 0 else \<bar>(arr - arr_old) / arr\<bar> > ARTOL)"

partial_function (option) kepler_loop ::
  "real \<Rightarrow> real \<Rightarrow> real \<Rightarrow> real \<Rightarrow> real \<Rightarrow> real \<Rightarrow> real \<times> real \<Rightarrow> (real \<times> real) option" where
  \<comment> \<open>The \<^verbatim>\<open>while\<close> loop of lines 46-50 on the pair \<open>(arr_old, arr)\<close>. The body assigns
      \<^verbatim>\<open>arr_old = arr\<close> and then \<^verbatim>\<open>ar = arr0 * (...)\<close>: the new iterate goes to the
      variable \<^verbatim>\<open>ar\<close>, which nothing reads, and \<^verbatim>\<open>arr\<close> keeps its value.\<close>
  "kepler_loop G c M1 M2 arr0 ARTOL s =
     (case s of (arr_old, arr) \<Rightarrow>
        if kepler_cond ARTOL arr_old arr
        then (let arr_old' = arr;
                  ar = kepler_rhs G c M1 M2 arr0 arr
              in kepler_loop G c M1 M2 arr0 ARTOL (arr_old', arr))
        else Some (arr_old, arr))"

definition solve_kepler ::
  "real \<Rightarrow> real \<Rightarrow> real \<Rightarrow> real \<Rightarrow> real \<Rightarrow> real \<Rightarrow> (real \<times> real) option" where
  \<comment> \<open>\<^verbatim>\<open>_solve_kepler(M1, M2, n, ARTOL)\<close>; \<open>None\<close> stands for a loop that never ends.\<close>
  "solve_kepler G c M1 M2 n ARTOL =
     (let MTOT = M1 + M2;
          arr0 = (G * MTOT / n\<^sup>2) powr (1 / 3);
          arr = arr0;
          arr_old = arr;
          arr = kepler_rhs G c M1 M2 arr0 arr
      in case kepler_loop G c M1 M2 arr0 ARTOL (arr_old, arr) of
           None \<Rightarrow> None
         | Some (arr_old', arr') \<Rightarrow> Some (arr0, arr'))"

definition kepler_arr0 :: "real \<Rightarrow> real \<Rightarrow> real \<Rightarrow> real \<Rightarrow> real" where
  \<comment> \<open>The non-relativistic semi-major axis as the specification writes it.\<close>
  "kepler_arr0 G M1 M2 n = (G * (M1 + M2) / n\<^sup>2) powr (1 / 3)"

definition kepler_residual_ok ::
  "real \<Rightarrow> real \<Rightarrow> real \<Rightarrow> real \<Rightarrow> real \<Rightarrow> real \<Rightarrow> real \<times> real \<Rightarrow> bool" where
  \<comment> \<open>What the specification asks of the returned pair: the first component is the
      non-relativistic axis, and the second solves the relativistic equation up to the
      fractional tolerance.\<close>
  "kepler_residual_ok G c M1 M2 n ARTOL r =
     (case r of (arr0, arr) \<Rightarrow>
        arr0 = kepler_arr0 G M1 M2 n \<and>
        \<bar>(kepler_rhs G c M1 M2 arr0 arr - arr) / arr\<bar> \<le> ARTOL)"

definition kepler_K :: "real \<Rightarrow> real \<Rightarrow> real \<Rightarrow> real \<Rightarrow> real" where
  \<comment> \<open>Auxiliary: the relativistic correction of \<open>kepler_rhs\<close> is \<open>1 - kepler_K / arr\<close>.\<close>
  "kepler_K G c M1 M2 = (9 - M1 * M2 / (M1 + M2)\<^sup>2) * (G * (M1 + M2) / (2 * c\<^sup>2))"

section \<open>The DDGR binary model: object state and post-Keplerian quantities\<close>

text \<open>
  A \<^verbatim>\<open>DDGRmodel\<close> instance is its instance dictionary. Orbital parameters and the scalars
  that \<^verbatim>\<open>_updatePK\<close> derives are scalar quantities (a magnitude, which may be \<^verbatim>\<open>None\<close>, and
  a unit); \<^verbatim>\<open>tt0\<close> and the per-observation results are arrays with a unit. Units are kept
  as symbolic labels: the source only ever divides one unit by another when it builds an
  array of zeros or ones, and \<open>UnitOf x\<close> names the unit that astropy attaches to the
  computed quantity \<open>x\<close>.

  The accessors \<^verbatim>\<open>self.a1()\<close> and \<^verbatim>\<open>self.ecc()\<close> are inherited from a parent class that
  is defined outside the source files considered here. The functions below take the per-observation
  arrays that these calls return as the parameters \<open>a1\<close> and \<open>ecc\<close>.
\<close>

datatype unit_expr = U string | Udiv unit_expr unit_expr | UnitOf string

record param =
  pvalue :: "real option"
  punit :: unit_expr

record qarray =
  avalues :: "real list"
  aunit :: unit_expr

datatype pyval = Scalar param | Array qarray | Method

datatype error = AttributeError | TypeError | IndexError | ValueError | NoSuchObject

record ddgr =
  scalars :: "string \<rightharpoonup> param"
  arrays :: "string \<rightharpoonup> qarray"

definition bindE :: "error + 'a \<Rightarrow> ('a \<Rightarrow> error + 'b) \<Rightarrow> error + 'b" where
  \<comment> \<open>Sequencing of steps that may raise: the first exception ends the evaluation.\<close>
  "bindE m f = (case m of Inl e \<Rightarrow> Inl e | Inr x \<Rightarrow> f x)"

definition fe :: "real \<Rightarrow> real" where
  \<comment> \<open>The property \<^verbatim>\<open>fe\<close> (Taylor and Weisberg 1989, Eqn. 19) at one eccentricity.\<close>
  "fe e = (1 + (73 / 24) * e\<^sup>2 + (37 / 96) * e ^ 4) * (1 - e\<^sup>2) powr (- 7 / 2)"

definition ddgr_methods :: "string list" where
  \<comment> \<open>The names that the class body binds with \<^verbatim>\<open>def\<close>.\<close>
  "ddgr_methods =
     [''__init__'', ''_updatePK'', ''d_arr_d_M2'', ''d_arr_d_MTOT'',
      ''d_k_d_MTOT'', ''d_k_d_M2'', ''d_k_d_ECC'', ''d_k_d_PB'', ''d_k_d_par'',
      ''omega'', ''d_omega_d_par'', ''d_omega_d_MTOT'', ''d_omega_d_XOMDOT'',
      ''d_SINI_d_MTOT'', ''d_SINI_d_M2'', ''d_SINI_d_PB'', ''d_SINI_d_A1'', ''d_SINI_d_par'',
      ''d_GAMMA_d_ECC'', ''d_GAMMA_d_MTOT'', ''d_GAMMA_d_M2'', ''d_GAMMA_d_PB'',
      ''d_GAMMA_d_par'',
      ''d_PBDOT_d_MTOT'', ''d_PBDOT_d_M2'', ''d_PBDOT_d_ECC'', ''d_PBDOT_d_PB'',
      ''d_PBDOT_d_XPBDOT'', ''d_E_d_MTOT'', ''d_nu_d_MTOT'', ''d_PB_d_MTOT'', ''d_n_d_MTOT'',
      ''d_PBDOT_d_par'', ''d_OMDOT_d_par'',
      ''d_DR_d_MTOT'', ''d_DR_d_M2'', ''d_DR_d_PB'', ''d_DR_d_par'',
      ''d_DTH_d_MTOT'', ''d_DTH_d_M2'', ''d_DTH_d_PB'', ''d_DTH_d_par'',
      ''er'', ''eTheta'', ''d_er_d_MTOT'', ''d_er_d_M2'', ''d_eTheta_d_MTOT'',
      ''d_eTheta_d_M2'', ''d_beta_d_MTOT'', ''d_beta_d_M2'']"

definition property_store :: "string \<rightharpoonup> string" where
  \<comment> \<open>The properties of the class whose getter returns another attribute.\<close>
  "property_store =
     [''arr'' \<mapsto> ''_arr'', ''k'' \<mapsto> ''_k'', ''SINI'' \<mapsto> ''_SINI'', ''GAMMA'' \<mapsto> ''_GAMMA'',
      ''PBDOT'' \<mapsto> ''_PBDOT'', ''OMDOT'' \<mapsto> ''XOMDOT'', ''DR'' \<mapsto> ''_DR'', ''DTH'' \<mapsto> ''_DTH'',
      ''PB'' \<mapsto> ''_PB'', ''MTOT'' \<mapsto> ''_MTOT'', ''M2'' \<mapsto> ''_M2'', ''A1'' \<mapsto> ''_A1'',
      ''ECC'' \<mapsto> ''_ECC'', ''A1DOT'' \<mapsto> ''_A1DOT'', ''EDOT'' \<mapsto> ''_EDOT'']"

definition lookup_dict :: "ddgr \<Rightarrow> string \<Rightarrow> pyval option" where
  "lookup_dict self name =
     (case scalars self name of
        Some p \<Rightarrow> Some (Scalar p)
      | None \<Rightarrow> (case arrays self name of Some a \<Rightarrow> Some (Array a) | None \<Rightarrow> None))"

definition stored :: "ddgr \<Rightarrow> string \<Rightarrow> error + pyval" where
  \<comment> \<open>Reading an attribute of the instance dictionary, as \<^verbatim>\<open>self._SINI\<close> does.\<close>
  "stored self name =
     (case lookup_dict self name of Some v \<Rightarrow> Inr v | None \<Rightarrow> Inl AttributeError)"

definition py_getattr :: "real list \<Rightarrow> ddgr \<Rightarrow> string \<Rightarrow> error + pyval" where
  \<comment> \<open>\<^verbatim>\<open>getattr(self, name)\<close>: a property of the class first, then the instance dictionary,
      then a method of the class. Members that only a parent class defines are not
      resolved.\<close>
  "py_getattr ecc self name =
     (if name = ''fe'' then Inr (Array \<lparr>avalues = map fe ecc, aunit = UnitOf ''fe''\<rparr>)
      else case property_store name of
        Some backing \<Rightarrow> stored self backing
      | None \<Rightarrow>
          (case lookup_dict self name of
             Some v \<Rightarrow> Inr v
           | None \<Rightarrow> if name \<in> set ddgr_methods then Inr Method else Inl AttributeError))"

definition unit_of :: "pyval \<Rightarrow> error + unit_expr" where
  \<comment> \<open>\<^verbatim>\<open>obj.unit\<close>; a bound method has no such attribute.\<close>
  "unit_of v = (case v of Scalar p \<Rightarrow> Inr (punit p) | Array a \<Rightarrow> Inr (aunit a)
                | Method \<Rightarrow> Inl AttributeError)"

definition len_tt0 :: "ddgr \<Rightarrow> error + nat" where
  \<comment> \<open>\<^verbatim>\<open>len(self.tt0)\<close>; a scalar quantity has no length.\<close>
  "len_tt0 self =
     (case lookup_dict self ''tt0'' of
        None \<Rightarrow> Inl AttributeError
      | Some (Array a) \<Rightarrow> Inr (length (avalues a))
      | Some _ \<Rightarrow> Inl TypeError)"

definition num :: "ddgr \<Rightarrow> string \<Rightarrow> error + real" where
  \<comment> \<open>The magnitude of a scalar attribute used in arithmetic; \<^verbatim>\<open>None\<close> cannot be used.\<close>
  "num self name =
     (case scalars self name of
        None \<Rightarrow> Inl AttributeError
      | Some p \<Rightarrow> (case pvalue p of None \<Rightarrow> Inl TypeError | Some x \<Rightarrow> Inr x))"

definition arr_of :: "ddgr \<Rightarrow> string \<Rightarrow> error + real list" where
  "arr_of self name =
     (case arrays self name of None \<Rightarrow> Inl AttributeError | Some a \<Rightarrow> Inr (avalues a))"

definition pval :: "ddgr \<Rightarrow> string \<Rightarrow> real option" where
  \<comment> \<open>\<open>None\<close> when \<^verbatim>\<open>hasattr\<close> fails or the \<^verbatim>\<open>.value\<close> is \<^verbatim>\<open>None\<close>.\<close>
  "pval self name = (case scalars self name of None \<Rightarrow> None | Some p \<Rightarrow> pvalue p)"

definition sq :: "real \<Rightarrow> unit_expr \<Rightarrow> param" where
  "sq x u = \<lparr>pvalue = Some x, punit = u\<rparr>"

definition qa :: "real list \<Rightarrow> unit_expr \<Rightarrow> qarray" where
  "qa xs u = \<lparr>avalues = xs, aunit = u\<rparr>"

definition updatePK :: "real \<Rightarrow> real \<Rightarrow> real list \<Rightarrow> real list \<Rightarrow> real \<Rightarrow> ddgr \<Rightarrow> ddgr option" where
  \<comment> \<open>\<^verbatim>\<open>_updatePK(self, ARTOL)\<close>. The properties \<^verbatim>\<open>PB\<close>, \<^verbatim>\<open>ECC\<close>, \<^verbatim>\<open>M2\<close>, \<^verbatim>\<open>MTOT\<close>, \<^verbatim>\<open>A1\<close>
      read the attributes \<^verbatim>\<open>_PB\<close>, ..., \<^verbatim>\<open>_A1\<close>. \<open>None\<close> stands for a solver that never
      returns.\<close>
  "updatePK G c a1 ecc ARTOL self =
     (if list_ex (\<lambda>p. pval self p = None) [''_PB'', ''_ECC'', ''_M2'', ''_MTOT'', ''_A1'']
      then Some self
      else case (pval self ''_PB'', pval self ''_M2'', pval self ''_MTOT'') of
        (Some PB, Some M2, Some MTOT) \<Rightarrow>
          (let M1 = MTOT - M2;
               n = 2 * pi / PB
           in case solve_kepler G c M1 M2 n ARTOL of
                None \<Rightarrow> None
              | Some (arr0, arr) \<Rightarrow>
                  (let ar = arr * (M2 / MTOT);
                       SINI = map (\<lambda>a. a / ar) a1;
                       GAMMA = map (\<lambda>e. e * G * M2 * (M1 + 2 * M2) / (n * c\<^sup>2 * arr0 * MTOT)) ecc;
                       PBDOT = map (\<lambda>e. (- 192 * pi / (5 * c ^ 5)) * (G * n) powr (5 / 3)
                                          * M1 * M2 * MTOT powr (- 1 / 3) * fe e) ecc;
                       OMDOT = map (\<lambda>e. 3 * n powr (5 / 3) * (1 / (1 - e\<^sup>2))
                                          * (G * (M1 + M2) / c ^ 3) powr (2 / 3)) ecc;
                       k = map (\<lambda>e. (3 * G * MTOT) / (c\<^sup>2 * arr0 * (1 - e\<^sup>2))) ecc;
                       DR = (G / (c\<^sup>2 * MTOT * arr)) * (3 * M1\<^sup>2 + 6 * M1 * M2 + 2 * M2\<^sup>2);
                       er = map (\<lambda>e. e * (1 + DR)) ecc;
                       DTH = (G / (c\<^sup>2 * MTOT * arr))
                               * ((7 / 2) * M1\<^sup>2 + 6 * M1 * M2 + 2 * M2\<^sup>2);
                       eth = map (\<lambda>e. e * (1 + DTH)) ecc
                   in Some (self
                       \<lparr>scalars := (scalars self)
                          (''_M1'' \<mapsto> sq M1 (UnitOf ''_M1''),
                           ''_n'' \<mapsto> sq n (UnitOf ''_n''),
                           ''_arr'' \<mapsto> sq arr (UnitOf ''_arr''),
                           ''_ar'' \<mapsto> sq ar (UnitOf ''_ar''),
                           ''_DR'' \<mapsto> sq DR (UnitOf ''_DR''),
                           ''_DTH'' \<mapsto> sq DTH (UnitOf ''_DTH'')),
                        arrays := (arrays self)
                          (''_SINI'' \<mapsto> qa SINI (UnitOf ''_SINI''),
                           ''_GAMMA'' \<mapsto> qa GAMMA (U ''s''),
                           ''_PBDOT'' \<mapsto> qa PBDOT (UnitOf ''_PBDOT''),
                           ''_OMDOT'' \<mapsto> qa OMDOT (Udiv (U ''deg'') (U ''yr'')),
                           ''_k'' \<mapsto> qa k (UnitOf ''_k''),
                           ''_er'' \<mapsto> qa er (UnitOf ''_er''),
                           ''_eth'' \<mapsto> qa eth (UnitOf ''_eth''))\<rparr>)))
      | _ \<Rightarrow> Some self)"

text \<open>
  The setters of the six properties that DDGR reads but ignores. Each body is a single
  \<^verbatim>\<open>log.debug\<close> call; the value is dropped.
\<close>

definition SINI_setter :: "ddgr \<Rightarrow> pyval \<Rightarrow> ddgr" where
  "SINI_setter self val = self"

definition PBDOT_setter :: "ddgr \<Rightarrow> pyval \<Rightarrow> ddgr" where
  "PBDOT_setter self val = self"

definition OMDOT_setter :: "ddgr \<Rightarrow> pyval \<Rightarrow> ddgr" where
  "OMDOT_setter self val = self"

definition GAMMA_setter :: "ddgr \<Rightarrow> pyval \<Rightarrow> ddgr" where
  "GAMMA_setter self val = self"

definition DR_setter :: "ddgr \<Rightarrow> pyval \<Rightarrow> ddgr" where
  "DR_setter self val = self"

definition DTH_setter :: "ddgr \<Rightarrow> pyval \<Rightarrow> ddgr" where
  "DTH_setter self val = self"

section \<open>The DDGR binary model: derivative formulas and their dispatchers\<close>

text \<open>
  A formula reads its operands from the instance; a missing attribute raises
  \<^verbatim>\<open>AttributeError\<close> at the read. The properties \<^verbatim>\<open>MTOT\<close>, \<^verbatim>\<open>M2\<close>, \<^verbatim>\<open>PB\<close>, \<^verbatim>\<open>arr\<close> and \<^verbatim>\<open>k\<close>
  are read through their backing attributes. Calls to \<^verbatim>\<open>print\<close> are left out.
\<close>

definition d_arr_d_M2 :: "real \<Rightarrow> real \<Rightarrow> ddgr \<Rightarrow> error + real" where
  "d_arr_d_M2 G c self =
     bindE (num self ''_MTOT'') (\<lambda>MTOT.
     bindE (num self ''_arr'') (\<lambda>arr.
     bindE (num self ''_M2'') (\<lambda>M2.
       (let an0 = sqrt (G * MTOT / arr ^ 3);
            fact1 = (G / c\<^sup>2) * (MTOT / (2 * arr)) * ((MTOT - M2) * M2 / MTOT\<^sup>2 - 9);
            fact2 = G * c * (3 * MTOT / (2 * arr ^ 4)) * (1 + fact1);
            fact3 = c * (MTOT / 2 / arr)
                      * (M2 / MTOT\<^sup>2 - 2 * (MTOT - M2) * M2 / MTOT ^ 3);
            fact4 = c * G * (1 + fact1) * 3 * MTOT / (2 * arr ^ 4 * an0);
            fact5 = c * an0 * fact1 / arr;
            denumm = c ^ 3 * (1 + fact1) / (2 * arr ^ 3 * an0)
                       + an0 * ((c ^ 3 / G) * fact1 / MTOT + fact3);
            denomm = fact4 + fact5;
            dnum = an0 * (MTOT - 2 * M2) / (2 * arr * MTOT);
            denom = c * an0 * fact1 / arr + fact2 / an0;
            darrdm2 = (G / c) * (dnum / denom);
            darrdm = (G / c\<^sup>2) * (denumm / denomm)
        in Inr darrdm2))))"

definition d_arr_d_MTOT :: "real \<Rightarrow> real \<Rightarrow> ddgr \<Rightarrow> error + real" where
  "d_arr_d_MTOT G c self =
     bindE (num self ''_MTOT'') (\<lambda>MTOT.
     bindE (num self ''_arr'') (\<lambda>arr.
     bindE (num self ''_M2'') (\<lambda>M2.
       (let an0 = sqrt (G * MTOT / arr ^ 3);
            fact1 = (G / c\<^sup>2) * (MTOT / (2 * arr)) * ((MTOT - M2) * M2 / MTOT\<^sup>2 - 9);
            fact2 = G * c * (3 * MTOT / (2 * arr ^ 4)) * (1 + fact1);
            fact3 = c * (MTOT / 2 / arr)
                      * (M2 / MTOT\<^sup>2 - 2 * (MTOT - M2) * M2 / MTOT ^ 3);
            fact4 = c * G * (1 + fact1) * 3 * MTOT / (2 * arr ^ 4 * an0);
            fact5 = c * an0 * fact1 / arr;
            denumm = c ^ 3 * (1 + fact1) / (2 * arr ^ 3 * an0)
                       + an0 * ((c ^ 3 / G) * fact1 / MTOT + fact3);
            denomm = fact4 + fact5;
            dnum = an0 * (MTOT - 2 * M2) / (2 * arr * MTOT);
            denom = c * an0 * fact1 / arr + fact2 / an0;
            darrdm2 = (G / c) * (dnum / denom);
            darrdm = (G / c\<^sup>2) * (denumm / denomm)
        in Inr darrdm))))"

definition d_k_d_MTOT :: "real \<Rightarrow> real \<Rightarrow> ddgr \<Rightarrow> error + pyval" where
  "d_k_d_MTOT G c self =
     bindE (arr_of self ''_k'') (\<lambda>k.
     bindE (num self ''_MTOT'') (\<lambda>MTOT.
     bindE (d_arr_d_MTOT G c self) (\<lambda>d.
     bindE (num self ''_arr'') (\<lambda>arr.
       Inr (Array (qa (map (\<lambda>ki. ki / MTOT - ki * d / arr) k) (UnitOf ''d_k_d_MTOT''))))))) "

definition d_k_d_M2 :: "real \<Rightarrow> real \<Rightarrow> ddgr \<Rightarrow> error + pyval" where
  "d_k_d_M2 G c self =
     bindE (arr_of self ''_k'') (\<lambda>k.
     bindE (d_arr_d_M2 G c self) (\<lambda>d.
     bindE (num self ''_arr'') (\<lambda>arr.
       Inr (Array (qa (map (\<lambda>ki. - ki * d / arr) k) (UnitOf ''d_k_d_M2''))))))"

definition d_k_d_ECC :: "real \<Rightarrow> real \<Rightarrow> real list \<Rightarrow> ddgr \<Rightarrow> error + pyval" where
  "d_k_d_ECC G c ecc self =
     bindE (num self ''_MTOT'') (\<lambda>MTOT.
     bindE (num self ''_n'') (\<lambda>n.
       Inr (Array (qa (map (\<lambda>e. 6 * (G * MTOT * n) powr (2 / 3) * e
                                   / (c\<^sup>2 * (1 - e\<^sup>2)\<^sup>2)) ecc)
                     (UnitOf ''d_k_d_ECC'')))))"

definition d_k_d_PB :: "real \<Rightarrow> real \<Rightarrow> real list \<Rightarrow> ddgr \<Rightarrow> error + pyval" where
  "d_k_d_PB G c ecc self =
     bindE (num self ''_MTOT'') (\<lambda>MTOT.
     bindE (num self ''_PB'') (\<lambda>PB.
       Inr (Array (qa (map (\<lambda>e. 2 * (4 * pi\<^sup>2 * G\<^sup>2 * MTOT\<^sup>2 / PB ^ 5) powr (1 / 3)
                                   / c\<^sup>2 / (e\<^sup>2 - 1)) ecc)
                     (UnitOf ''d_k_d_PB'')))))"

definition d_SINI_d_A1 :: "real \<Rightarrow> ddgr \<Rightarrow> error + pyval" where
  "d_SINI_d_A1 G self =
     bindE (num self ''_MTOT'') (\<lambda>MTOT.
     bindE (num self ''_n'') (\<lambda>n.
     bindE (num self ''_M2'') (\<lambda>M2.
       Inr (Scalar (sq ((MTOT\<^sup>2 * n\<^sup>2 / G) powr (1 / 3) / M2) (UnitOf ''d_SINI_d_A1''))))))"

definition d_GAMMA_d_ECC :: "real \<Rightarrow> real \<Rightarrow> ddgr \<Rightarrow> error + pyval" where
  "d_GAMMA_d_ECC G c self =
     bindE (num self ''_M2'') (\<lambda>M2.
     bindE (num self ''_MTOT'') (\<lambda>MTOT.
     bindE (num self ''_n'') (\<lambda>n.
       Inr (Scalar (sq ((G powr (2 / 3) * M2 * (MTOT + M2))
                          / (c\<^sup>2 * MTOT powr (4 / 3) * n powr (1 / 3)))
                       (UnitOf ''d_GAMMA_d_ECC''))))))"

definition d_GAMMA_d_MTOT :: "real \<Rightarrow> real \<Rightarrow> real list \<Rightarrow> ddgr \<Rightarrow> error + pyval" where
  "d_GAMMA_d_MTOT G c ecc self =
     bindE (num self ''_arr'') (\<lambda>arr.
     bindE (num self ''_MTOT'') (\<lambda>MTOT.
     bindE (num self ''_M2'') (\<lambda>M2.
     bindE (d_arr_d_MTOT G c self) (\<lambda>d.
     bindE (num self ''_n'') (\<lambda>n.
       Inr (Array (qa (map (\<lambda>e. (G / c\<^sup>2)
                                   * ((1 / (arr * MTOT) - (MTOT + M2) / (arr * MTOT\<^sup>2)
                                         - (MTOT + M2) * d / (arr\<^sup>2 * MTOT))
                                      * e * M2 / n)) ecc)
                     (UnitOf ''d_GAMMA_d_MTOT''))))))))"

definition d_GAMMA_d_M2 :: "real \<Rightarrow> real \<Rightarrow> real list \<Rightarrow> ddgr \<Rightarrow> error + pyval" where
  "d_GAMMA_d_M2 G c ecc self =
     bindE (num self ''_M2'') (\<lambda>M2.
     bindE (num self ''_MTOT'') (\<lambda>MTOT.
     bindE (d_arr_d_M2 G c self) (\<lambda>d.
     bindE (num self ''_arr'') (\<lambda>arr.
     bindE (num self ''_n'') (\<lambda>n.
       Inr (Array (qa (map (\<lambda>e. G / c\<^sup>2
                                   * ((M2 * (MTOT + M2) * d / arr\<^sup>2 - (MTOT + 2 * M2) / arr)
                                      * e / n / MTOT)) ecc)
                     (UnitOf ''d_GAMMA_d_M2''))))))))"

definition d_GAMMA_d_PB :: "real \<Rightarrow> real \<Rightarrow> real list \<Rightarrow> ddgr \<Rightarrow> error + pyval" where
  "d_GAMMA_d_PB G c ecc self =
     bindE (num self ''_MTOT'') (\<lambda>MTOT.
     bindE (num self ''_PB'') (\<lambda>PB.
     bindE (num self ''_M2'') (\<lambda>M2.
       Inr (Array (qa (map (\<lambda>e. e * (G\<^sup>2 * 4 / pi / MTOT ^ 4 / PB\<^sup>2) powr (1 / 3)
                                   * M2 * (MTOT + M2) / 6 / c\<^sup>2) ecc)
                     (UnitOf ''d_GAMMA_d_PB''))))))"

definition filled :: "real \<Rightarrow> unit_expr \<Rightarrow> pyval \<Rightarrow> ddgr \<Rightarrow> error + pyval" where
  \<comment> \<open>The body of the fallback lambdas, \<^verbatim>\<open>np.zeros(len(self.tt0)) * numer / par_obj.unit\<close>
      (or \<^verbatim>\<open>np.ones\<close>), evaluated on the instance at the time of the call.\<close>
  "filled x numer par_obj self =
     bindE (len_tt0 self) (\<lambda>len.
     bindE (unit_of par_obj) (\<lambda>u.
       Inr (Array (qa (replicate len x) (Udiv numer u)))))"

definition call_d_k :: "real \<Rightarrow> real \<Rightarrow> real list \<Rightarrow> ddgr \<Rightarrow> string \<Rightarrow> pyval \<Rightarrow> error + pyval" where
  \<comment> \<open>\<^verbatim>\<open>ko_func()\<close> for the attribute found under the name \<^verbatim>\<open>d_k_d_{par}\<close>: one of the four
      formulas, the dispatcher itself (which lacks its argument), or a value that is not
      callable.\<close>
  "call_d_k G c ecc self par ko_func =
     (case ko_func of
        Method \<Rightarrow>
          (if par = ''MTOT'' then d_k_d_MTOT G c self
           else if par = ''M2'' then d_k_d_M2 G c self
           else if par = ''ECC'' then d_k_d_ECC G c ecc self
           else if par = ''PB'' then d_k_d_PB G c ecc self
           else Inl TypeError)
      | _ \<Rightarrow> Inl TypeError)"

definition d_k_d_par :: "real \<Rightarrow> real \<Rightarrow> real list \<Rightarrow> ddgr \<Rightarrow> string \<Rightarrow> error + pyval" where
  "d_k_d_par G c ecc self par =
     bindE (py_getattr ecc self par) (\<lambda>par_obj.
       (case py_getattr ecc self (''d_k_d_'' @ par) of
          Inl AttributeError \<Rightarrow> filled 0 (U '''') par_obj self
        | Inl e \<Rightarrow> Inl e
        | Inr ko_func \<Rightarrow> call_d_k G c ecc self par ko_func))"

definition call_d_GAMMA ::
  "real \<Rightarrow> real \<Rightarrow> real list \<Rightarrow> ddgr \<Rightarrow> string \<Rightarrow> pyval \<Rightarrow> error + pyval" where
  "call_d_GAMMA G c ecc self par ko_func =
     (case ko_func of
        Method \<Rightarrow>
          (if par = ''ECC'' then d_GAMMA_d_ECC G c self
           else if par = ''MTOT'' then d_GAMMA_d_MTOT G c ecc self
           else if par = ''M2'' then d_GAMMA_d_M2 G c ecc self
           else if par = ''PB'' then d_GAMMA_d_PB G c ecc self
           else Inl TypeError)
      | _ \<Rightarrow> Inl TypeError)"

definition d_GAMMA_d_par :: "real \<Rightarrow> real \<Rightarrow> real list \<Rightarrow> ddgr \<Rightarrow> string \<Rightarrow> error + pyval" where
  "d_GAMMA_d_par G c ecc self par =
     bindE (py_getattr ecc self par) (\<lambda>par_obj.
       (case py_getattr ecc self (''d_GAMMA_d_'' @ par) of
          Inl AttributeError \<Rightarrow> filled 0 (U ''s'') par_obj self
        | Inl e \<Rightarrow> Inl e
        | Inr ko_func \<Rightarrow> call_d_GAMMA G c ecc self par ko_func))"

definition d_OMDOT_d_par ::
  "real list \<Rightarrow> ddgr \<Rightarrow> string \<Rightarrow> error + (ddgr \<Rightarrow> error + pyval)" where
  \<comment> \<open>Returns the lambda itself. The lambda reads \<^verbatim>\<open>self.tt0\<close> when it is called, so the
      callable takes the instance as it is at that time.\<close>
  "d_OMDOT_d_par ecc self par =
     bindE (py_getattr ecc self par) (\<lambda>par_obj.
       if par = ''XOMDOT''
       then Inr (filled 1 (Udiv (U ''deg'') (U ''yr'')) par_obj)
       else Inr (filled 0 (Udiv (U ''deg'') (U ''yr'')) par_obj))"

text \<open>
  The closed forms of Taylor and Weisberg (1989) as the specification writes them, for
  one observation with projected axis \<open>a1\<close> and eccentricity \<open>e\<close>.
\<close>

definition tw_SINI :: "real \<Rightarrow> real \<Rightarrow> real \<Rightarrow> real \<Rightarrow> real" where
  "tw_SINI a1 arr M2 MTOT = a1 / (arr * M2 / MTOT)"

definition tw_GAMMA ::
  "real \<Rightarrow> real \<Rightarrow> real \<Rightarrow> real \<Rightarrow> real \<Rightarrow> real \<Rightarrow> real \<Rightarrow> real \<Rightarrow> real" where
  "tw_GAMMA G c e M1 M2 MTOT n arr0 = e * G * M2 * (M1 + 2 * M2) / (n * c\<^sup>2 * arr0 * MTOT)"

definition tw_fe :: "real \<Rightarrow> real" where
  "tw_fe e = (1 + (73 / 24) * e\<^sup>2 + (37 / 96) * e ^ 4) * (1 - e\<^sup>2) powr (- (7 / 2))"

definition tw_PBDOT :: "real \<Rightarrow> real \<Rightarrow> real \<Rightarrow> real \<Rightarrow> real \<Rightarrow> real \<Rightarrow> real \<Rightarrow> real" where
  "tw_PBDOT G c e M1 M2 MTOT n =
     (- 192 * pi / (5 * c ^ 5)) * (G * n) powr (5 / 3) * M1 * M2 * MTOT powr (- (1 / 3))
       * tw_fe e"

definition tw_k :: "real \<Rightarrow> real \<Rightarrow> real \<Rightarrow> real \<Rightarrow> real \<Rightarrow> real" where
  "tw_k G c e MTOT arr0 = 3 * G * MTOT / (c\<^sup>2 * arr0 * (1 - e\<^sup>2))"

definition d_SINI_d_A1_relativistic :: "ddgr \<Rightarrow> error + pyval" where
  \<comment> \<open>The value the specification states for \<^verbatim>\<open>d_SINI_d_A1()\<close>: \<open>MTOT / (arr * M2)\<close> with
      the relativistic semi-major axis \<open>arr\<close>.\<close>
  "d_SINI_d_A1_relativistic self =
     bindE (num self ''_MTOT'') (\<lambda>MTOT.
     bindE (num self ''_arr'') (\<lambda>arr.
     bindE (num self ''_M2'') (\<lambda>M2.
       Inr (Scalar (sq (MTOT / (arr * M2)) (UnitOf ''d_SINI_d_A1''))))))"

definition magnitude :: "error + pyval \<Rightarrow> real option" where
  \<comment> \<open>The number in a result that is a scalar quantity.\<close>
  "magnitude r = (case r of Inr (Scalar p) \<Rightarrow> pvalue p | _ \<Rightarrow> None)"

section \<open>A concrete DDGR instance\<close>

text \<open>
  A double-neutron-star binary close to PSR B1913+16, with magnitudes in SI units: an
  orbital period of 27907 s, eccentricity 0.617, a companion of \<open>2758 * 10 ^ 27\<close> kg, a
  total mass of \<open>5623 * 10 ^ 27\<close> kg, a projected semi-major axis of \<open>702 * 10 ^ 6\<close> m, no
  excess periastron advance, and two observations. The eccentricity and the projected
  axis do not drift, so \<^verbatim>\<open>ecc()\<close> and \<^verbatim>\<open>a1()\<close> are constant arrays.
\<close>

definition psr_params :: ddgr where
  "psr_params =
     \<lparr>scalars = [''_PB'' \<mapsto> sq 27907 (U ''s''),
                 ''_ECC'' \<mapsto> sq (617 / 1000) (U ''''),
                 ''_M2'' \<mapsto> sq (2758 * 10 ^ 27) (U ''kg''),
                 ''_MTOT'' \<mapsto> sq (5623 * 10 ^ 27) (U ''kg''),
                 ''_A1'' \<mapsto> sq (702 * 10 ^ 6) (U ''m''),
                 ''XOMDOT'' \<mapsto> sq 0 (Udiv (U ''deg'') (U ''yr''))],
      arrays = [''tt0'' \<mapsto> qa [0, 86400] (U ''s'')]\<rparr>"

definition psr_ecc :: "real list" where
  "psr_ecc = [617 / 1000, 617 / 1000]"

definition psr_a1 :: "real list" where
  "psr_a1 = [702 * 10 ^ 6, 702 * 10 ^ 6]"

definition psr :: ddgr where
  \<comment> \<open>The instance after \<^verbatim>\<open>_updatePK()\<close> with the default tolerance.\<close>
  "psr = the (updatePK G_SI c_SI psr_a1 psr_ecc (1 / 10 ^ 10) psr_params)"

section \<open>Chi-squared grids\<close>

text \<open>
  Source: \<^verbatim>\<open>src/pint/gridutils.py\<close>.

  The functions work on a fitter object that refers to a timing-model object, and they
  copy and mutate these objects, so the model has an explicit store: a heap of fitter
  objects and a heap of timing-model objects, a reference being an index. A new object is
  appended, which makes its reference fresh. \<open>NoSuchObject\<close> is the model's answer for a
  reference outside the heap; Python has no such reference.

  A timing model maps parameter names to parameter objects with a \<^verbatim>\<open>quantity\<close> and a
  \<^verbatim>\<open>frozen\<close> flag. What else a fitter holds (observations, residuals, settings) is the
  component \<open>rest\<close>.

  \<^verbatim>\<open>Fitter.fit_toas\<close> is defined outside the source files considered here. It is the
  parameter \<open>fit\<close>:
  a deterministic function from the fitter's own state (the contents of its model and
  \<open>rest\<close>) to the chi-squared it returns and the state it leaves.
\<close>

record par_obj =
  quantity :: real
  frozen :: bool

type_synonym tmodel = "string \<rightharpoonup> par_obj"

record 'a fitter =
  model :: nat
  rest :: 'a

record 'a heap =
  fitters :: "'a fitter list"
  tmodels :: "tmodel list"

record chisq_grid =
  shape :: "nat list"
  flat :: "real list"

type_synonym 'a fit_fun = "tmodel \<times> 'a \<Rightarrow> real \<times> tmodel \<times> 'a"

definition get_fitter :: "'a heap \<Rightarrow> nat \<Rightarrow> error + 'a fitter" where
  "get_fitter h r = (if r < length (fitters h) then Inr (fitters h ! r) else Inl NoSuchObject)"

definition get_model :: "'a heap \<Rightarrow> nat \<Rightarrow> error + tmodel" where
  "get_model h r = (if r < length (tmodels h) then Inr (tmodels h ! r) else Inl NoSuchObject)"

definition deepcopy_model :: "'a heap \<Rightarrow> nat \<Rightarrow> error + nat \<times> 'a heap" where
  \<comment> \<open>\<^verbatim>\<open>copy.deepcopy\<close> of a timing model: a new object with the same contents.\<close>
  "deepcopy_model h r =
     bindE (get_model h r) (\<lambda>m.
       Inr (length (tmodels h), h\<lparr>tmodels := tmodels h @ [m]\<rparr>))"

definition deepcopy_fitter :: "'a heap \<Rightarrow> nat \<Rightarrow> error + nat \<times> 'a heap" where
  \<comment> \<open>\<^verbatim>\<open>copy.deepcopy\<close> of a fitter: a new fitter that refers to a new copy of the model.\<close>
  "deepcopy_fitter h r =
     bindE (get_fitter h r) (\<lambda>f.
     bindE (deepcopy_model h (model f)) (\<lambda>(rm, h1).
       Inr (length (fitters h1), h1\<lparr>fitters := fitters h1 @ [f\<lparr>model := rm\<rparr>]\<rparr>)))"

definition set_frozen :: "'a heap \<Rightarrow> nat \<Rightarrow> string \<Rightarrow> error + 'a heap" where
  \<comment> \<open>\<^verbatim>\<open>getattr(ftr.model, parname).frozen = True\<close>\<close>
  "set_frozen h ftr parname =
     bindE (get_fitter h ftr) (\<lambda>f.
     bindE (get_model h (model f)) (\<lambda>m.
       case m parname of
         None \<Rightarrow> Inl AttributeError
       | Some p \<Rightarrow> Inr (h\<lparr>tmodels := (tmodels h)[model f := m(parname \<mapsto> p\<lparr>frozen := True\<rparr>)]\<rparr>)))"

definition set_quantity :: "'a heap \<Rightarrow> nat \<Rightarrow> string \<Rightarrow> real \<Rightarrow> error + 'a heap" where
  \<comment> \<open>\<^verbatim>\<open>getattr(ftr.model, parname).quantity = parvalue\<close>\<close>
  "set_quantity h ftr parname parvalue =
     bindE (get_fitter h ftr) (\<lambda>f.
     bindE (get_model h (model f)) (\<lambda>m.
       case m parname of
         None \<Rightarrow> Inl AttributeError
       | Some p \<Rightarrow>
           Inr (h\<lparr>tmodels := (tmodels h)[model f := m(parname \<mapsto> p\<lparr>quantity := parvalue\<rparr>)]\<rparr>)))"

definition fit_toas :: "'a fit_fun \<Rightarrow> 'a heap \<Rightarrow> nat \<Rightarrow> error + real \<times> 'a heap" where
  \<comment> \<open>\<^verbatim>\<open>ftr.fit_toas()\<close>: the fit reads and updates the fitter and its model in place.\<close>
  "fit_toas fit h ftr =
     bindE (get_fitter h ftr) (\<lambda>f.
     bindE (get_model h (model f)) (\<lambda>m.
       case fit (m, rest f) of
         (chi, m', a') \<Rightarrow>
           Inr (chi, h\<lparr>tmodels := (tmodels h)[model f := m'],
                        fitters := (fitters h)[ftr := f\<lparr>rest := a'\<rparr>]\<rparr>)))"

fun freeze_and_set :: "'a heap \<Rightarrow> nat \<Rightarrow> (string \<times> real) list \<Rightarrow> error + 'a heap" where
  \<comment> \<open>The loop of \<^verbatim>\<open>_grid_doonefit\<close> over \<^verbatim>\<open>zip(parnames, parvalues)\<close>.\<close>
  "freeze_and_set h myftr [] = Inr h"
| "freeze_and_set h myftr ((parname, parvalue) # others) =
     bindE (set_frozen h myftr parname) (\<lambda>h1.
     bindE (set_quantity h1 myftr parname parvalue) (\<lambda>h2.
       freeze_and_set h2 myftr others))"

definition grid_doonefit ::
  "'a fit_fun \<Rightarrow> 'a heap \<Rightarrow> nat \<Rightarrow> string list \<Rightarrow> real list \<Rightarrow> error + real \<times> 'a heap" where
  \<comment> \<open>\<^verbatim>\<open>_grid_doonefit(ftr, parnames, parvalues)\<close>\<close>
  "grid_doonefit fit h ftr parnames parvalues =
     bindE (deepcopy_fitter h ftr) (\<lambda>(myftr, h1).
     bindE (freeze_and_set h1 myftr (zip parnames parvalues)) (\<lambda>h2.
       fit_toas fit h2 myftr))"

fun grid_points :: "'v list list \<Rightarrow> 'v list list" where
  \<comment> \<open>\<^verbatim>\<open>out = np.meshgrid(*parvalues)\<close> read in C order: entry \<open>j\<close> is the list of
      \<^verbatim>\<open>out[0].flat[j]\<close>, \<^verbatim>\<open>out[1].flat[j]\<close>, ... With the default \<^verbatim>\<open>indexing='xy'\<close> the
      second input runs along the first axis and the first input along the second.\<close>
  "grid_points [] = []"
| "grid_points [x] = map (\<lambda>a. [a]) x"
| "grid_points (x0 # x1 # others) =
     concat (map (\<lambda>b. concat (map (\<lambda>a. map (\<lambda>r. a # b # r) (product_lists others)) x0)) x1)"

fun grid_shape :: "'v list list \<Rightarrow> nat list" where
  \<comment> \<open>\<^verbatim>\<open>out[0].shape\<close>\<close>
  "grid_shape [] = []"
| "grid_shape [x] = [length x]"
| "grid_shape (x0 # x1 # others) = length x1 # length x0 # map length others"

fun pool_map ::
  "('a heap \<Rightarrow> 'x \<Rightarrow> error + real \<times> 'a heap) \<Rightarrow> 'a heap \<Rightarrow> 'x list
     \<Rightarrow> error + real list \<times> 'a heap" where
  \<comment> \<open>\<^verbatim>\<open>pool.map\<close>: one call of the worker per argument, the results in the order of the
      arguments. The workers run one after the other on the caller's heap, where
      they could interfere at least as much as separate processes can.\<close>
  "pool_map worker h [] = Inr ([], h)"
| "pool_map worker h (x # xs) =
     bindE (worker h x) (\<lambda>(r, h1).
     bindE (pool_map worker h1 xs) (\<lambda>(rs, h2).
       Inr (r # rs, h2)))"

definition grid_chisq_mp ::
  "'a fit_fun \<Rightarrow> 'a heap \<Rightarrow> nat \<Rightarrow> string list \<Rightarrow> real list list
     \<Rightarrow> error + chisq_grid \<times> 'a heap" where
  \<comment> \<open>\<^verbatim>\<open>grid_chisq_mp(ftr, parnames, parvalues)\<close>. \<^verbatim>\<open>out[0]\<close> raises \<^verbatim>\<open>IndexError\<close> when
      there is no grid axis, and \<^verbatim>\<open>np.nditer\<close> raises \<^verbatim>\<open>ValueError\<close> on an array without
      elements. Entry \<open>j\<close> of the iterator receives \<^verbatim>\<open>results[j]\<close>.\<close>
  "grid_chisq_mp fit h ftr parnames parvalues =
     (if parvalues = [] then Inl IndexError
      else let out = grid_points parvalues
           in if out = [] then Inl ValueError
              else bindE (pool_map (\<lambda>h' pt. grid_doonefit fit h' ftr parnames pt) h out)
                     (\<lambda>(results, h').
                        Inr (\<lparr>shape = grid_shape parvalues, flat = results\<rparr>, h')))"

fun freeze_all :: "'a heap \<Rightarrow> nat \<Rightarrow> string list \<Rightarrow> error + 'a heap" where
  \<comment> \<open>\<^verbatim>\<open>for parname in parnames: getattr(ftr.model, parname).frozen = True\<close>\<close>
  "freeze_all h ftr [] = Inr h"
| "freeze_all h ftr (parname # others) =
     bindE (set_frozen h ftr parname) (\<lambda>h1. freeze_all h1 ftr others)"

fun set_point :: "'a heap \<Rightarrow> nat \<Rightarrow> (nat \<times> string) list \<Rightarrow> real list \<Rightarrow> error + 'a heap" where
  \<comment> \<open>The inner loop of \<^verbatim>\<open>grid_chisq\<close> over \<^verbatim>\<open>enumerate(parnames)\<close> at one grid point;
      \<^verbatim>\<open>out[parnum]\<close> raises \<^verbatim>\<open>IndexError\<close> beyond the last axis.\<close>
  "set_point h ftr [] pt = Inr h"
| "set_point h ftr ((parnum, parname) # others) pt =
     (if parnum < length pt
      then bindE (set_quantity h ftr parname (pt ! parnum)) (\<lambda>h1. set_point h1 ftr others pt)
      else Inl IndexError)"

fun grid_loop ::
  "'a fit_fun \<Rightarrow> 'a heap \<Rightarrow> nat \<Rightarrow> string list \<Rightarrow> real list list
     \<Rightarrow> error + real list \<times> 'a heap" where
  \<comment> \<open>The loop \<^verbatim>\<open>for x in it\<close> of \<^verbatim>\<open>grid_chisq\<close>.\<close>
  "grid_loop fit h ftr parnames [] = Inr ([], h)"
| "grid_loop fit h ftr parnames (pt # pts) =
     bindE (set_point h ftr (enumerate 0 parnames) pt) (\<lambda>h1.
     bindE (fit_toas fit h1 ftr) (\<lambda>(chi, h2).
     bindE (grid_loop fit h2 ftr parnames pts) (\<lambda>(chis, h3).
       Inr (chi # chis, h3))))"

definition grid_chisq ::
  "'a fit_fun \<Rightarrow> 'a heap \<Rightarrow> nat \<Rightarrow> string list \<Rightarrow> real list list
     \<Rightarrow> error + chisq_grid \<times> 'a heap" where
  \<comment> \<open>\<^verbatim>\<open>grid_chisq(ftr, parnames, parvalues)\<close>; printing is left out.\<close>
  "grid_chisq fit h ftr parnames parvalues =
     bindE (get_fitter h ftr) (\<lambda>f.
       let savemod = model f
       in bindE (deepcopy_model h savemod) (\<lambda>(gridmod, h1).
            let h2 = h1\<lparr>fitters := (fitters h1)[ftr := f\<lparr>model := gridmod\<rparr>]\<rparr>
            in bindE (freeze_all h2 ftr parnames) (\<lambda>h3.
                 if parvalues = [] then Inl IndexError
                 else let out = grid_points parvalues
                      in if out = [] then Inl ValueError
                         else bindE (grid_loop fit h3 ftr parnames out) (\<lambda>(chi2, h4).
                                bindE (get_fitter h4 ftr) (\<lambda>f4.
                                  Inr (\<lparr>shape = grid_shape parvalues, flat = chi2\<rparr>,
                                       h4\<lparr>fitters := (fitters h4)[ftr := f4\<lparr>model := savemod\<rparr>]\<rparr>))))))"

definition chisq_of :: "error + chisq_grid \<times> 'a heap \<Rightarrow> error + chisq_grid" where
  \<comment> \<open>What the caller receives: the array, or the exception.\<close>
  "chisq_of r = (case r of Inl e \<Rightarrow> Inl e | Inr (g, h) \<Rightarrow> Inr g)"

section \<open>Two concrete fitters\<close>

text \<open>
  A model with a free parameter \<open>F0\<close> and a parameter \<open>M2\<close> to grid over. The first fitter
  takes a single step of a damped iteration: it moves a free \<open>F0\<close> half of the way towards
  \<open>M2\<close> and reports the remaining squared distance. The second fitter converges: it sets
  \<open>F0\<close> to \<open>10 - M2\<close> and reports \<open>(M2 - 3)\<^sup>2\<close>, whatever \<open>F0\<close> was before.
\<close>

definition halfway_fit :: "unit fit_fun" where
  "halfway_fit s =
     (case s of (m, a) \<Rightarrow>
        (case (m ''F0'', m ''M2'') of
           (Some f, Some g) \<Rightarrow>
             (if frozen f then ((quantity f - quantity g)\<^sup>2, m, a)
              else let f' = (quantity f + quantity g) / 2
                   in ((f' - quantity g)\<^sup>2, m(''F0'' \<mapsto> f\<lparr>quantity := f'\<rparr>), a))
         | _ \<Rightarrow> (0, m, a)))"

definition converged_fit :: "unit fit_fun" where
  "converged_fit s =
     (case s of (m, a) \<Rightarrow>
        (case (m ''F0'', m ''M2'') of
           (Some f, Some g) \<Rightarrow>
             ((quantity g - 3)\<^sup>2, m(''F0'' \<mapsto> f\<lparr>quantity := 10 - quantity g\<rparr>), a)
         | _ \<Rightarrow> (0, m, a)))"

definition same_but_F0 :: "tmodel \<times> unit \<Rightarrow> tmodel \<times> unit \<Rightarrow> bool" where
  \<comment> \<open>Two fitter states that differ at most in the parameter object \<open>F0\<close>.\<close>
  "same_but_F0 s t =
     (dom (fst s) = dom (fst t) \<and> (fst s)(''F0'' := None) = (fst t)(''F0'' := None))"

definition grid_heap :: "unit heap" where
  \<comment> \<open>One fitter, object 0, whose model is model object 0.\<close>
  "grid_heap =
     \<lparr>fitters = [\<lparr>model = 0, rest = ()\<rparr>],
      tmodels = [[''F0'' \<mapsto> \<lparr>quantity = 8, frozen = False\<rparr>,
                  ''M2'' \<mapsto> \<lparr>quantity = 1, frozen = False\<rparr>]]\<rparr>"

section \<open>Chi-squared grids: the state of one fitter\<close>

text \<open>
  Auxiliary notions for the statements about the grid functions: the state a fitter
  object holds, the effect of the two loops on a model's contents, and the chi-squared
  that one worker call computes from a given fitter state.
\<close>

definition wf_fitter :: "'a heap \<Rightarrow> nat \<Rightarrow> bool" where
  \<comment> \<open>The reference is a fitter object of the heap, and so is its model.\<close>
  "wf_fitter h ftr = (ftr < length (fitters h) \<and> model (fitters h ! ftr) < length (tmodels h))"

definition contents :: "'a heap \<Rightarrow> nat \<Rightarrow> tmodel \<times> 'a" where
  "contents h ftr = (tmodels h ! model (fitters h ! ftr), rest (fitters h ! ftr))"

definition modify :: "'a heap \<Rightarrow> nat \<Rightarrow> tmodel \<times> 'a \<Rightarrow> 'a heap" where
  \<comment> \<open>In-place update of a fitter's model object and of its remaining state.\<close>
  "modify h ftr s =
     h\<lparr>tmodels := (tmodels h)[model (fitters h ! ftr) := fst s],
       fitters := (fitters h)[ftr := (fitters h ! ftr)\<lparr>rest := snd s\<rparr>]\<rparr>"

definition extends :: "'a heap \<Rightarrow> 'a heap \<Rightarrow> bool" where
  \<comment> \<open>Every object of the first heap is in the second heap, under the same reference
      and with the same contents.\<close>
  "extends h h' = (prefix (fitters h) (fitters h') \<and> prefix (tmodels h) (tmodels h'))"

definition freeze1 :: "tmodel \<Rightarrow> string \<Rightarrow> error + tmodel" where
  "freeze1 m parname =
     (case m parname of None \<Rightarrow> Inl AttributeError
      | Some p \<Rightarrow> Inr (m(parname \<mapsto> p\<lparr>frozen := True\<rparr>)))"

definition assign1 :: "tmodel \<Rightarrow> string \<Rightarrow> real \<Rightarrow> error + tmodel" where
  "assign1 m parname parvalue =
     (case m parname of None \<Rightarrow> Inl AttributeError
      | Some p \<Rightarrow> Inr (m(parname \<mapsto> p\<lparr>quantity := parvalue\<rparr>)))"

fun freeze_and_set_model :: "tmodel \<Rightarrow> (string \<times> real) list \<Rightarrow> error + tmodel" where
  "freeze_and_set_model m [] = Inr m"
| "freeze_and_set_model m ((parname, parvalue) # others) =
     bindE (freeze1 m parname) (\<lambda>m1.
     bindE (assign1 m1 parname parvalue) (\<lambda>m2.
       freeze_and_set_model m2 others))"

fun freeze_all_model :: "tmodel \<Rightarrow> string list \<Rightarrow> error + tmodel" where
  "freeze_all_model m [] = Inr m"
| "freeze_all_model m (parname # others) =
     bindE (freeze1 m parname) (\<lambda>m1. freeze_all_model m1 others)"

fun set_point_model :: "tmodel \<Rightarrow> (nat \<times> string) list \<Rightarrow> real list \<Rightarrow> error + tmodel" where
  "set_point_model m [] pt = Inr m"
| "set_point_model m ((parnum, parname) # others) pt =
     (if parnum < length pt
      then bindE (assign1 m parname (pt ! parnum)) (\<lambda>m1. set_point_model m1 others pt)
      else Inl IndexError)"

definition point_chisq :: "'a fit_fun \<Rightarrow> tmodel \<times> 'a \<Rightarrow> string list \<Rightarrow> real list \<Rightarrow> error + real" where
  \<comment> \<open>The chi-squared of one fit that starts from the fitter state \<open>s\<close> with the listed
      parameters frozen at the values of the grid point.\<close>
  "point_chisq fit s parnames pt =
     bindE (freeze_and_set_model (fst s) (zip parnames pt)) (\<lambda>m. Inr (fst (fit (m, snd s))))"

fun grid_loop_model ::
  "'a fit_fun \<Rightarrow> tmodel \<times> 'a \<Rightarrow> string list \<Rightarrow> real list list
     \<Rightarrow> error + real list \<times> (tmodel \<times> 'a)" where
  "grid_loop_model fit s parnames [] = Inr ([], s)"
| "grid_loop_model fit s parnames (pt # pts) =
     bindE (set_point_model (fst s) (enumerate 0 parnames) pt) (\<lambda>m1.
     bindE (grid_loop_model fit (snd (fit (m1, snd s))) parnames pts) (\<lambda>(chis, s').
       Inr (fst (fit (m1, snd s)) # chis, s')))"

definition upd_f :: "string \<Rightarrow> tmodel \<Rightarrow> tmodel" where
  \<comment> \<open>The effect of \<open>freeze1\<close> on a model that has the parameter.\<close>
  "upd_f n m = (case m n of None \<Rightarrow> m | Some p \<Rightarrow> m(n \<mapsto> p\<lparr>frozen := True\<rparr>))"

definition upd_q :: "string \<times> real \<Rightarrow> tmodel \<Rightarrow> tmodel" where
  \<comment> \<open>The effect of \<open>assign1\<close> on a model that has the parameter.\<close>
  "upd_q z m = (case m (fst z) of None \<Rightarrow> m | Some p \<Rightarrow> m(fst z \<mapsto> p\<lparr>quantity := snd z\<rparr>))"

definition at_point :: "string list \<Rightarrow> real list \<Rightarrow> tmodel \<times> 'a \<Rightarrow> tmodel \<times> 'a" where
  \<comment> \<open>A fitter state with the listed parameters set to the values of a grid point.\<close>
  "at_point parnames pt s = (fold upd_q (zip parnames pt) (fst s), snd s)"

fun collect :: "(error + 'x) list \<Rightarrow> error + 'x list" where
  \<comment> \<open>The results of a list of calls, or the first exception.\<close>
  "collect [] = Inr []"
| "collect (r # rs) = bindE r (\<lambda>x. bindE (collect rs) (\<lambda>xs. Inr (x # xs)))"

definition history_free :: "'a fit_fun \<Rightarrow> (tmodel \<times> 'a \<Rightarrow> tmodel \<times> 'a \<Rightarrow> bool) \<Rightarrow> bool" where
  \<comment> \<open>The chi-squared that \<open>fit\<close> returns does not depend on what earlier fits left
      behind: a relation \<open>R\<close> between fitter states is reflexive and transitive, relates
      only states with the same parameter names, is kept when both states assign the same
      quantity to a parameter, relates the state after a fit to the state before it, and
      related states give the same chi-squared.\<close>
  "history_free fit R =
     ((\<forall>s. R s s) \<and>
      (\<forall>s t u. R s t \<longrightarrow> R t u \<longrightarrow> R s u) \<and>
      (\<forall>s t. R s t \<longrightarrow> dom (fst s) = dom (fst t)) \<and>
      (\<forall>s t z. R s t \<longrightarrow> R (upd_q z (fst s), snd s) (upd_q z (fst t), snd t)) \<and>
      (\<forall>s. R (snd (fit s)) s) \<and>
      (\<forall>s t. R s t \<longrightarrow> fst (fit s) = fst (fit t)))"

section \<open>The DDK binary model: alternative Kopeikin solutions\<close>

text \<open>
  Source: \<^verbatim>\<open>src/pint/models/binary_ddk.py\<close>.

  A \<^verbatim>\<open>BinaryDDK\<close> component holds the parameters \<^verbatim>\<open>KIN\<close> and \<^verbatim>\<open>KOM\<close> and refers to its
  parent timing model, from which it reads the proper motion. A parameter's \<^verbatim>\<open>quantity\<close>
  is a number (degrees for the two angles) or \<^verbatim>\<open>None\<close>; the parent has a list of component
  names and, for each proper-motion parameter it defines, that parameter's quantity.
\<close>

record parent_model =
  components :: "string list"
  pm :: "string \<rightharpoonup> real option"

record binary_ddk =
  KIN :: "real option"
  KOM :: "real option"
  parent :: parent_model

definition parent_quantity :: "binary_ddk \<Rightarrow> string \<Rightarrow> error + real option" where
  \<comment> \<open>\<^verbatim>\<open>self._parent.NAME.quantity\<close>\<close>
  "parent_quantity self name =
     (case pm (parent self) name of None \<Rightarrow> Inl AttributeError | Some q \<Rightarrow> Inr q)"

definition PMLONG_DDK_quantity :: "binary_ddk \<Rightarrow> error + real option" where
  \<comment> \<open>\<^verbatim>\<open>self.PMLONG_DDK.quantity\<close>. Without an astrometry component the property returns
      \<^verbatim>\<open>None\<close>, which has no \<^verbatim>\<open>quantity\<close>.\<close>
  "PMLONG_DDK_quantity self =
     (if ''AstrometryEquatorial'' \<in> set (components (parent self))
      then parent_quantity self ''PMRA''
      else if ''AstrometryEcliptic'' \<in> set (components (parent self))
      then parent_quantity self ''PMELONG''
      else Inl AttributeError)"

definition PMLAT_DDK_quantity :: "binary_ddk \<Rightarrow> error + real option" where
  \<comment> \<open>\<^verbatim>\<open>self.PMLAT_DDK.quantity\<close>\<close>
  "PMLAT_DDK_quantity self =
     (if ''AstrometryEquatorial'' \<in> set (components (parent self))
      then parent_quantity self ''PMDEC''
      else if ''AstrometryEcliptic'' \<in> set (components (parent self))
      then parent_quantity self ''PMELAT''
      else Inl AttributeError)"

definition py_arctan2 :: "real \<Rightarrow> real \<Rightarrow> real" where
  \<comment> \<open>\<^verbatim>\<open>np.arctan2(y, x)\<close> in radians, on reals.\<close>
  "py_arctan2 y x =
     (if 0 < x then arctan (y / x)
      else if x < 0 \<and> 0 \<le> y then arctan (y / x) + pi
      else if x < 0 \<and> y < 0 then arctan (y / x) - pi
      else if 0 < y then pi / 2
      else if y < 0 then - (pi / 2)
      else 0)"

definition c_fmod :: "real \<Rightarrow> real \<Rightarrow> real" where
  \<comment> \<open>C's \<^verbatim>\<open>fmod(x, m)\<close>: the remainder of the quotient truncated towards zero. It has the
      sign of \<open>x\<close> and is computed without rounding. (For \<open>m = 0\<close> the library returns nan;
      the divisor is 360 in every call below.)\<close>
  "c_fmod x m = x - m * of_int (if 0 \<le> x / m then \<lfloor>x / m\<rfloor> else \<lceil>x / m\<rceil>)"

definition py_mod :: "(real \<Rightarrow> real) \<Rightarrow> real \<Rightarrow> real \<Rightarrow> real" where
  \<comment> \<open>\<^verbatim>\<open>x % m\<close> on floats, as numpy's \<^verbatim>\<open>remainder\<close> and Python compute it: take \<^verbatim>\<open>fmod\<close>, and
      when the result is not zero and its sign differs from the divisor's, add the divisor.
      That addition is a float addition, so its result is rounded: \<open>rnd\<close> is the rounding of
      the float format, which is not part of the source. A tiny negative \<^verbatim>\<open>fmod\<close> plus
      the divisor can round to the divisor itself.\<close>
  "py_mod rnd x m =
     (let r = c_fmod x m
      in if r \<noteq> 0 then (if (m < 0) \<noteq> (r < 0) then rnd (r + m) else r) else 0)"

definition rnd44 :: "real \<Rightarrow> real" where
  \<comment> \<open>Rounding to the nearest multiple of \<open>2 ^ -44\<close>, the spacing of the binary64 numbers
      between 256 and 512.\<close>
  "rnd44 x = of_int (round (x * 2 ^ 44)) / 2 ^ 44"

definition alternative_solutions ::
  "(real \<Rightarrow> real) \<Rightarrow> binary_ddk \<Rightarrow> error + (real \<times> real) list" where
  \<comment> \<open>\<^verbatim>\<open>BinaryDDK.alternative_solutions()\<close>, angles in degrees. Arithmetic on a quantity
      that is \<^verbatim>\<open>None\<close> raises \<^verbatim>\<open>TypeError\<close>. The operands of \<^verbatim>\<open>%\<close> are computed on the
      reals; the rounding inside \<^verbatim>\<open>%\<close> is kept, since it decides which values the
      remainder can take.\<close>
  "alternative_solutions rnd self =
     bindE (PMLAT_DDK_quantity self) (\<lambda>lat.
     bindE (PMLONG_DDK_quantity self) (\<lambda>long.
       case (lat, long) of
         (Some pmlat, Some pmlong) \<Rightarrow>
           (let KOM_zero = py_arctan2 pmlat pmlong * 180 / pi
            in case (KIN self, KOM self) of
                 (Some x0, Some y0) \<Rightarrow>
                   Inr [(x0, y0),
                        (x0, py_mod rnd (2 * KOM_zero - y0 - 180) 360),
                        (py_mod rnd (180 - x0) 360, py_mod rnd (2 * KOM_zero - y0) 360),
                        (py_mod rnd (180 - x0) 360, py_mod rnd (y0 + 180) 360)]
               | _ \<Rightarrow> Inl TypeError)
       | _ \<Rightarrow> Inl TypeError))"

definition in_circle :: "real \<times> real \<Rightarrow> bool" where
  \<comment> \<open>Both angles of a pair lie in the interval from 0 up to, but not including, 360.\<close>
  "in_circle p = (0 \<le> fst p \<and> fst p < 360 \<and> 0 \<le> snd p \<and> snd p < 360)"

definition ddk_equatorial :: "real \<Rightarrow> real \<Rightarrow> binary_ddk" where
  \<comment> \<open>A model in equatorial coordinates with proper motion (1, 1) and the given angles.\<close>
  "ddk_equatorial kin kom =
     \<lparr>KIN = Some kin, KOM = Some kom,
      parent = \<lparr>components = [''AstrometryEquatorial'', ''BinaryDDK''],
                pm = [''PMRA'' \<mapsto> Some 1, ''PMDEC'' \<mapsto> Some 1]\<rparr>\<rparr>"

section \<open>Facts about the solver\<close>

subsection \<open>Bounds on fractional powers\<close>

lemma cube_root_cube: "0 \<le> (w::real) \<Longrightarrow> (w ^ 3) powr (1 / 3) = w"
proof -
  assume w: "0 \<le> w"
  then have "(w ^ 3) powr (1 / 3) = (w powr 3) powr (1 / 3)" by simp
  also have "\<dots> = w powr 1" by (simp add: powr_powr)
  also from w have "\<dots> = w" by simp
  finally show ?thesis .
qed

lemma powr_two_thirds: "0 \<le> (x::real) \<Longrightarrow> x powr (2 / 3) = (x\<^sup>2) powr (1 / 3)"
proof -
  assume x: "0 \<le> x"
  then have "(x\<^sup>2) powr (1 / 3) = (x powr 2) powr (1 / 3)" by simp
  also have "\<dots> = x powr (2 / 3)" by (simp add: powr_powr)
  finally show ?thesis by simp
qed

lemma powr_third_upper: "0 \<le> (u::real) \<Longrightarrow> 0 \<le> x \<Longrightarrow> x \<le> u ^ 3 \<Longrightarrow> x powr (1 / 3) \<le> u"
  using powr_mono2 [of "1 / 3" x "u ^ 3"] by (simp add: cube_root_cube)

lemma powr_third_lower: "0 \<le> (l::real) \<Longrightarrow> l ^ 3 \<le> x \<Longrightarrow> l \<le> x powr (1 / 3)"
  using powr_mono2 [of "1 / 3" "l ^ 3" x] by (simp add: cube_root_cube)

lemma powr_two_thirds_upper:
  "0 \<le> (x::real) \<Longrightarrow> 0 \<le> w \<Longrightarrow> x\<^sup>2 \<le> w ^ 3 \<Longrightarrow> x powr (2 / 3) \<le> w"
  by (simp add: powr_two_thirds powr_third_upper)

lemma powr_two_thirds_lower:
  "0 \<le> (x::real) \<Longrightarrow> 0 \<le> v \<Longrightarrow> v ^ 3 \<le> x\<^sup>2 \<Longrightarrow> v \<le> x powr (2 / 3)"
  by (simp add: powr_two_thirds powr_third_lower)

subsection \<open>The loop\<close>

lemma kepler_rhs_K:
  "kepler_rhs G c M1 M2 arr0 a = arr0 * (1 - kepler_K G c M1 M2 / a) powr (2 / 3)"
proof -
  have neg: "(p - 9) * X = - ((9 - p) * X)" for p X :: real
    by (simp add: algebra_simps)
  have "G * (M1 + M2) / (2 * a * c\<^sup>2) = G * (M1 + M2) / (2 * c\<^sup>2) / a"
    by simp
  then have "(M1 * M2 / (M1 + M2)\<^sup>2 - 9) * (G * (M1 + M2) / (2 * a * c\<^sup>2))
          = - (kepler_K G c M1 M2 / a)"
    unfolding kepler_K_def by (simp only: neg times_divide_eq_right)
  then show ?thesis by (simp add: kepler_rhs_def Let_def)
qed

lemma K_bounds:
  "19493 \<le> kepler_K G_SI c_SI (3 * 10 ^ 30) (3 * 10 ^ 30)"
  "kepler_K G_SI c_SI (3 * 10 ^ 30) (3 * 10 ^ 30) \<le> 19494"
  by (simp_all add: kepler_K_def G_SI_def c_SI_def)

lemma A_bounds:
  "73708 \<le> kepler_arr0 G_SI (3 * 10 ^ 30) (3 * 10 ^ 30) 1000"
  "kepler_arr0 G_SI (3 * 10 ^ 30) (3 * 10 ^ 30) 1000 \<le> 73709"
  unfolding kepler_arr0_def G_SI_def
  by (rule powr_third_lower; simp) (rule powr_third_upper; simp)


lemma kepler_first_iterate_not_fixed:
  fixes A K :: real
  assumes A: "73708 \<le> A" "A \<le> 73709" and K: "19493 \<le> K" "K \<le> 19494"
  defines "arr \<equiv> A * (1 - K / A) powr (2 / 3)"
  shows "\<bar>(A * (1 - K / arr) powr (2 / 3) - arr) / arr\<bar> > 1 / 10 ^ 10"
proof -
  have KA_hi: "K / A \<le> 19494 / 73708"
    using A K by (intro frac_le) simp_all
  have KA_lo: "19493 / 73709 \<le> K / A"
    using A K by (intro frac_le) simp_all
  define b1 where "b1 = 1 - K / A"
  have b1_lo: "1 - 19494 / 73708 \<le> b1" and b1_hi: "b1 \<le> 1 - 19493 / 73709"
    unfolding b1_def using KA_hi KA_lo by linarith+
  have b1_nonneg: "0 \<le> b1" using b1_lo by linarith
  have sq_lo: "(1 - 19494 / 73708)\<^sup>2 \<le> b1\<^sup>2"
    using b1_lo by (intro power_mono) simp_all
  have sq_hi: "b1\<^sup>2 \<le> (1 - 19493 / 73709)\<^sup>2"
    using b1_hi b1_nonneg by (intro power_mono) simp_all
  have p1_lo: "8148 / 10000 \<le> b1 powr (2 / 3)"
  proof (rule powr_two_thirds_lower [OF b1_nonneg])
    have "(8148 / 10000 :: real) ^ 3 \<le> (1 - 19494 / 73708)\<^sup>2"
      by (simp add: power2_eq_square power3_eq_cube)
    with sq_lo show "(8148 / 10000) ^ 3 \<le> b1\<^sup>2" by linarith
  qed simp
  have p1_hi: "b1 powr (2 / 3) \<le> 8149 / 10000"
  proof (rule powr_two_thirds_upper [OF b1_nonneg])
    have "(1 - 19493 / 73709)\<^sup>2 \<le> (8149 / 10000 :: real) ^ 3"
      by (simp add: power2_eq_square power3_eq_cube)
    with sq_hi show "b1\<^sup>2 \<le> (8149 / 10000) ^ 3" by linarith
  qed simp
  have arr_eq: "arr = A * b1 powr (2 / 3)" by (simp add: arr_def b1_def)
  have arr_lo: "60057 \<le> arr"
  proof -
    have "73708 * (8148 / 10000) \<le> A * b1 powr (2 / 3)"
      using A p1_lo by (intro mult_mono) simp_all
    then show ?thesis by (simp add: arr_eq)
  qed
  have arr_hi: "arr \<le> 60066"
  proof -
    have "A * b1 powr (2 / 3) \<le> 73709 * (8149 / 10000)"
      using A p1_hi by (intro mult_mono) simp_all
    then show ?thesis by (simp add: arr_eq)
  qed
  define b2 where "b2 = 1 - K / arr"
  have Karr_hi: "K / arr \<le> 19494 / 60057"
    using arr_lo K by (intro frac_le) simp_all
  have Karr_lo: "19493 / 60066 \<le> K / arr"
    using arr_lo arr_hi K by (intro frac_le) simp_all
  have b2_nonneg: "0 \<le> b2" unfolding b2_def using Karr_hi by linarith
  have b2_hi: "b2 \<le> 1 - 19493 / 60066" unfolding b2_def using Karr_lo by linarith
  have p2_hi: "b2 powr (2 / 3) \<le> 77 / 100"
  proof (rule powr_two_thirds_upper [OF b2_nonneg])
    have "b2\<^sup>2 \<le> (1 - 19493 / 60066)\<^sup>2"
      using b2_hi b2_nonneg by (intro power_mono) simp_all
    moreover have "(1 - 19493 / 60066)\<^sup>2 \<le> (77 / 100 :: real) ^ 3"
      by (simp add: power2_eq_square power3_eq_cube)
    ultimately show "b2\<^sup>2 \<le> (77 / 100) ^ 3" by linarith
  qed simp
  have F_hi: "A * b2 powr (2 / 3) \<le> 56756"
  proof -
    have "A * b2 powr (2 / 3) \<le> 73709 * (77 / 100)"
      using A p2_hi by (intro mult_mono) simp_all
    then show ?thesis by simp
  qed
  have arr_pos: "0 < arr" using arr_lo by simp
  have "(A * b2 powr (2 / 3) - arr) / arr \<le> (56756 - 60057) / 60057"
  proof -
    have "(A * b2 powr (2 / 3) - arr) / arr = A * b2 powr (2 / 3) / arr - 1"
      using arr_pos by (simp add: field_simps)
    moreover have "A * b2 powr (2 / 3) / arr \<le> 56756 / 60057"
      using F_hi arr_lo A by (intro frac_le) simp_all
    ultimately show ?thesis by simp
  qed
  moreover have "((56756 - 60057) / 60057 :: real) < - (1 / 10 ^ 10)" by simp
  ultimately have "(A * b2 powr (2 / 3) - arr) / arr < - (1 / 10 ^ 10)" by linarith
  then have "1 / 10 ^ 10 < \<bar>(A * b2 powr (2 / 3) - arr) / arr\<bar>" by linarith
  then show "\<bar>(A * (1 - K / arr) powr (2 / 3) - arr) / arr\<bar> > 1 / 10 ^ 10"
    unfolding b2_def .
qed


lemma kepler_cond_same: "0 \<le> ARTOL \<Longrightarrow> \<not> kepler_cond ARTOL a a"
  by (simp add: kepler_cond_def)

lemma kepler_loop_same:
  "0 \<le> ARTOL \<Longrightarrow> kepler_loop G c M1 M2 arr0 ARTOL (a, a) = Some (a, a)"
  by (subst kepler_loop.simps) (simp add: kepler_cond_same)

lemma kepler_loop_snd:
  assumes "0 \<le> ARTOL"
  shows "\<exists>o'. kepler_loop G c M1 M2 arr0 ARTOL (arr_old, arr) = Some (o', arr)"
proof (cases "kepler_cond ARTOL arr_old arr")
  case True
  then have "kepler_loop G c M1 M2 arr0 ARTOL (arr_old, arr)
               = kepler_loop G c M1 M2 arr0 ARTOL (arr, arr)"
    by (subst kepler_loop.simps) (simp add: Let_def)
  with assms show ?thesis by (simp add: kepler_loop_same)
next
  case False
  then show ?thesis by (subst kepler_loop.simps) simp
qed

lemma solve_kepler_value:
  assumes "0 \<le> ARTOL"
  shows "solve_kepler G c M1 M2 n ARTOL =
           Some (kepler_arr0 G M1 M2 n,
                 kepler_rhs G c M1 M2 (kepler_arr0 G M1 M2 n) (kepler_arr0 G M1 M2 n))"
proof -
  obtain o' where
    "kepler_loop G c M1 M2 (kepler_arr0 G M1 M2 n) ARTOL
       (kepler_arr0 G M1 M2 n,
        kepler_rhs G c M1 M2 (kepler_arr0 G M1 M2 n) (kepler_arr0 G M1 M2 n))
     = Some (o', kepler_rhs G c M1 M2 (kepler_arr0 G M1 M2 n) (kepler_arr0 G M1 M2 n))"
    using kepler_loop_snd [OF assms] by blast
  then show ?thesis
    by (simp add: solve_kepler_def kepler_arr0_def Let_def)
qed

subsection \<open>A negative tolerance\<close>

text \<open>
  The loop is not one that ends whatever its input: with a negative tolerance the condition
  holds for ever once \<open>arr_old\<close> equals a non-zero \<open>arr\<close>, and the solver does not return.
\<close>

lemma kepler_loop_Some_not_stuck:
  assumes "kepler_loop G c M1 M2 arr0 ARTOL s = Some y"
  shows "\<not> (ARTOL < 0 \<and> fst s = snd s \<and> snd s \<noteq> 0)"
proof (rule kepler_loop.raw_induct
    [where P = "\<lambda>G c M1 M2 arr0 ARTOL s y. \<not> (ARTOL < 0 \<and> fst s = snd s \<and> snd s \<noteq> 0)",
      OF _ assms])
  fix loop :: "real \<Rightarrow> real \<Rightarrow> real \<Rightarrow> real \<Rightarrow> real \<Rightarrow> real \<Rightarrow> real \<times> real \<Rightarrow> (real \<times> real) option"
  fix G c M1 M2 arr0 ARTOL :: real and s y :: "real \<times> real"
  assume IH: "\<And>G c M1 M2 arr0 ARTOL s y. loop G c M1 M2 arr0 ARTOL s = Some y \<Longrightarrow>
                \<not> (ARTOL < 0 \<and> fst s = snd s \<and> snd s \<noteq> 0)"
    and body: "(case s of (arr_old, arr) \<Rightarrow>
        if kepler_cond ARTOL arr_old arr
        then let arr_old' = arr; ar = kepler_rhs G c M1 M2 arr0 arr
             in loop G c M1 M2 arr0 ARTOL (arr_old', arr)
        else Some (arr_old, arr)) = Some y"
  show "\<not> (ARTOL < 0 \<and> fst s = snd s \<and> snd s \<noteq> 0)"
  proof
    assume h: "ARTOL < 0 \<and> fst s = snd s \<and> snd s \<noteq> 0"
    then obtain b where s: "s = (b, b)" and b: "b \<noteq> 0" by (cases s) auto
    from h b have "kepler_cond ARTOL b b" by (simp add: kepler_cond_def)
    with body have "loop G c M1 M2 arr0 ARTOL (b, b) = Some y" by (simp add: s Let_def)
    from IH [OF this] h b show False by simp
  qed
qed

lemma kepler_loop_negative_tolerance:
  assumes "ARTOL < 0" and "a \<noteq> 0"
  shows "kepler_loop G c M1 M2 arr0 ARTOL (a, a) = None"
proof (cases "kepler_loop G c M1 M2 arr0 ARTOL (a, a)")
  case None
  then show ?thesis .
next
  case (Some y)
  from kepler_loop_Some_not_stuck [OF this] assms show ?thesis by simp
qed

lemma solve_kepler_negative_tolerance:
  assumes "ARTOL < 0"
    and "kepler_rhs G c M1 M2 (kepler_arr0 G M1 M2 n) (kepler_arr0 G M1 M2 n) \<noteq> 0"
  shows "solve_kepler G c M1 M2 n ARTOL = None"
proof -
  define A where "A = kepler_arr0 G M1 M2 n"
  define B where "B = kepler_rhs G c M1 M2 A A"
  have B: "B \<noteq> 0" using assms(2) by (simp add: A_def B_def)
  have "0 \<le> \<bar>(B - A) / B\<bar>" by simp
  with assms(1) have "ARTOL < \<bar>(B - A) / B\<bar>" by linarith
  with B have "kepler_cond ARTOL A B" by (simp only: kepler_cond_def if_False)
  then have "kepler_loop G c M1 M2 A ARTOL (A, B) = kepler_loop G c M1 M2 A ARTOL (B, B)"
    by (subst kepler_loop.simps) (simp add: Let_def)
  also have "\<dots> = None" using assms(1) B by (rule kepler_loop_negative_tolerance)
  finally show ?thesis
    by (simp add: solve_kepler_def Let_def A_def B_def kepler_arr0_def)
qed

subsection \<open>What the solver returns\<close>

text \<open>
  C1. The specification asks that the returned \<open>arr\<close> solves the relativistic Kepler
  equation up to the fractional tolerance. The source's loop never updates \<open>arr\<close>, so the
  function returns the first iterate. For two bodies of \<open>3 * 10 ^ 30\<close> kg at an orbital
  angular frequency of 1000 per second (SI units, default tolerance) the function returns, the
  first component is the non-relativistic axis, and the fractional residual of the second
  exceeds the tolerance.
\<close>

theorem solve_kepler_residual_fails:
  "solve_kepler G_SI c_SI (3 * 10 ^ 30) (3 * 10 ^ 30) 1000 (1 / 10 ^ 10) \<noteq> None \<and>
   fst (the (solve_kepler G_SI c_SI (3 * 10 ^ 30) (3 * 10 ^ 30) 1000 (1 / 10 ^ 10)))
     = kepler_arr0 G_SI (3 * 10 ^ 30) (3 * 10 ^ 30) 1000 \<and>
   \<not> kepler_residual_ok G_SI c_SI (3 * 10 ^ 30) (3 * 10 ^ 30) 1000 (1 / 10 ^ 10)
       (the (solve_kepler G_SI c_SI (3 * 10 ^ 30) (3 * 10 ^ 30) 1000 (1 / 10 ^ 10)))"
proof -
  define A where "A = kepler_arr0 G_SI (3 * 10 ^ 30) (3 * 10 ^ 30) 1000"
  define K where "K = kepler_K G_SI c_SI (3 * 10 ^ 30) (3 * 10 ^ 30)"
  have val: "solve_kepler G_SI c_SI (3 * 10 ^ 30) (3 * 10 ^ 30) 1000 (1 / 10 ^ 10)
               = Some (A, A * (1 - K / A) powr (2 / 3))"
    by (simp add: solve_kepler_value kepler_rhs_K A_def K_def)
  have "1 / 10 ^ 10
          < \<bar>(A * (1 - K / (A * (1 - K / A) powr (2 / 3))) powr (2 / 3)
               - A * (1 - K / A) powr (2 / 3)) / (A * (1 - K / A) powr (2 / 3))\<bar>"
    unfolding A_def K_def
    by (rule kepler_first_iterate_not_fixed) (rule A_bounds K_bounds)+
  then have "\<not> kepler_residual_ok G_SI c_SI (3 * 10 ^ 30) (3 * 10 ^ 30) 1000 (1 / 10 ^ 10)
               (A, A * (1 - K / A) powr (2 / 3))"
    unfolding kepler_residual_ok_def kepler_rhs_K K_def [symmetric] by simp
  with val show ?thesis by (simp add: A_def)
qed

text \<open>
  C3. For positive masses, positive orbital frequency and a positive tolerance the loop of
  \<open>solve_kepler\<close> ends and the function returns a pair.
\<close>

theorem solve_kepler_terminates:
  assumes "0 < M1" and "0 < M2" and "0 < n" and "0 < ARTOL"
  shows "\<exists>r. solve_kepler G c M1 M2 n ARTOL = Some r"
proof -
  from assms(4) have "0 \<le> ARTOL" by simp
  then show ?thesis by (simp add: solve_kepler_value)
qed

theorem solve_kepler_terminates_witness:
  "(0::real) < 3 * 10 ^ 30 \<and> (0::real) < 1000 \<and> (0::real) < 1 / 10 ^ 10 \<and>
   (\<exists>r. solve_kepler G_SI c_SI (3 * 10 ^ 30) (3 * 10 ^ 30) 1000 (1 / 10 ^ 10) = Some r)"
  using solve_kepler_terminates [of "3 * 10 ^ 30" "3 * 10 ^ 30" 1000 "1 / 10 ^ 10" G_SI c_SI]
  by simp

section \<open>Facts about the post-Keplerian update\<close>

text \<open>
  C2. When \<open>PB\<close>, \<open>ECC\<close>, \<open>M2\<close>, \<open>MTOT\<close> and \<open>A1\<close> all hold a value and the tolerance is
  positive, \<open>updatePK\<close> returns, and the stored \<open>_SINI\<close>, \<open>_GAMMA\<close>, \<open>_PBDOT\<close> and \<open>_k\<close> are
  the Taylor and Weisberg closed forms in \<open>M1 = MTOT - M2\<close>, \<open>n = 2 pi / PB\<close>, the
  eccentricity of each observation and the pair \<open>(arr0, arr)\<close> that \<open>solve_kepler\<close> returns.
\<close>

theorem updatePK_closed_forms:
  assumes "pval self ''_PB'' = Some PB" and "pval self ''_ECC'' = Some ECC"
    and "pval self ''_M2'' = Some M2" and "pval self ''_MTOT'' = Some MTOT"
    and "pval self ''_A1'' = Some A1" and "0 < ARTOL"
  shows "\<exists>arr0 arr self'.
           solve_kepler G c (MTOT - M2) M2 (2 * pi / PB) ARTOL = Some (arr0, arr)
           \<and> updatePK G c a1 ecc ARTOL self = Some self'
           \<and> arr_of self' ''_SINI'' = Inr (map (\<lambda>a. tw_SINI a arr M2 MTOT) a1)
           \<and> arr_of self' ''_GAMMA'' =
               Inr (map (\<lambda>e. tw_GAMMA G c e (MTOT - M2) M2 MTOT (2 * pi / PB) arr0) ecc)
           \<and> arr_of self' ''_PBDOT'' =
               Inr (map (\<lambda>e. tw_PBDOT G c e (MTOT - M2) M2 MTOT (2 * pi / PB)) ecc)
           \<and> arr_of self' ''_k'' = Inr (map (\<lambda>e. tw_k G c e MTOT arr0) ecc)"
proof -
  from assms(6) have tol: "0 \<le> ARTOL" by simp
  define arr0 where "arr0 = kepler_arr0 G (MTOT - M2) M2 (2 * pi / PB)"
  define arr where "arr = kepler_rhs G c (MTOT - M2) M2 arr0 arr0"
  have sk: "solve_kepler G c (MTOT - M2) M2 (2 * pi / PB) ARTOL = Some (arr0, arr)"
    unfolding arr0_def arr_def by (rule solve_kepler_value [OF tol])
  define self' where "self' = the (updatePK G c a1 ecc ARTOL self)"
  have up: "updatePK G c a1 ecc ARTOL self = Some self'"
    using assms(1-5) sk by (simp add: updatePK_def self'_def Let_def)
  have "arr_of self' ''_SINI'' = Inr (map (\<lambda>a. tw_SINI a arr M2 MTOT) a1)"
    using assms(1-5) sk
    by (simp add: updatePK_def self'_def Let_def arr_of_def qa_def tw_SINI_def)
  moreover have "arr_of self' ''_GAMMA'' =
      Inr (map (\<lambda>e. tw_GAMMA G c e (MTOT - M2) M2 MTOT (2 * pi / PB) arr0) ecc)"
    using assms(1-5) sk
    by (simp add: updatePK_def self'_def Let_def arr_of_def qa_def tw_GAMMA_def)
  moreover have "arr_of self' ''_PBDOT'' =
      Inr (map (\<lambda>e. tw_PBDOT G c e (MTOT - M2) M2 MTOT (2 * pi / PB)) ecc)"
    using assms(1-5) sk
    by (simp add: updatePK_def self'_def Let_def arr_of_def qa_def tw_PBDOT_def tw_fe_def
        fe_def)
  moreover have "arr_of self' ''_k'' = Inr (map (\<lambda>e. tw_k G c e MTOT arr0) ecc)"
    using assms(1-5) sk
    by (simp add: updatePK_def self'_def Let_def arr_of_def qa_def tw_k_def)
  ultimately show ?thesis using sk up by blast
qed

theorem updatePK_closed_forms_witness:
  "pval psr_params ''_PB'' = Some 27907 \<and> pval psr_params ''_ECC'' = Some (617 / 1000)
   \<and> pval psr_params ''_M2'' = Some (2758 * 10 ^ 27)
   \<and> pval psr_params ''_MTOT'' = Some (5623 * 10 ^ 27)
   \<and> pval psr_params ''_A1'' = Some (702 * 10 ^ 6) \<and> (0::real) < 1 / 10 ^ 10
   \<and> (\<exists>arr0 arr self'.
         solve_kepler G_SI c_SI (5623 * 10 ^ 27 - 2758 * 10 ^ 27) (2758 * 10 ^ 27)
           (2 * pi / 27907) (1 / 10 ^ 10) = Some (arr0, arr)
         \<and> updatePK G_SI c_SI psr_a1 psr_ecc (1 / 10 ^ 10) psr_params = Some self'
         \<and> arr_of self' ''_SINI'' =
             Inr (map (\<lambda>a. tw_SINI a arr (2758 * 10 ^ 27) (5623 * 10 ^ 27)) psr_a1)
         \<and> arr_of self' ''_GAMMA'' =
             Inr (map (\<lambda>e. tw_GAMMA G_SI c_SI e (5623 * 10 ^ 27 - 2758 * 10 ^ 27)
                            (2758 * 10 ^ 27) (5623 * 10 ^ 27) (2 * pi / 27907) arr0) psr_ecc)
         \<and> arr_of self' ''_PBDOT'' =
             Inr (map (\<lambda>e. tw_PBDOT G_SI c_SI e (5623 * 10 ^ 27 - 2758 * 10 ^ 27)
                            (2758 * 10 ^ 27) (5623 * 10 ^ 27) (2 * pi / 27907)) psr_ecc)
         \<and> arr_of self' ''_k'' =
             Inr (map (\<lambda>e. tw_k G_SI c_SI e (5623 * 10 ^ 27) arr0) psr_ecc))"
proof -
  have p: "pval psr_params ''_PB'' = Some 27907" "pval psr_params ''_ECC'' = Some (617 / 1000)"
    "pval psr_params ''_M2'' = Some (2758 * 10 ^ 27)"
    "pval psr_params ''_MTOT'' = Some (5623 * 10 ^ 27)"
    "pval psr_params ''_A1'' = Some (702 * 10 ^ 6)"
    by (simp_all add: psr_params_def pval_def sq_def)
  have t: "(0::real) < 1 / 10 ^ 10" by simp
  from updatePK_closed_forms [OF p t, of G_SI c_SI psr_a1 psr_ecc] p t
  show ?thesis by simp
qed

section \<open>Facts about the dispatchers\<close>

lemma filled_value:
  "len_tt0 self = Inr N \<Longrightarrow> unit_of par_obj = Inr u \<Longrightarrow>
   filled x numer par_obj self = Inr (Array (qa (replicate N x) (Udiv numer u)))"
  by (simp add: filled_def bindE_def)

lemma psr_params_tt0: "len_tt0 psr_params = Inr 2"
  by (simp add: len_tt0_def lookup_dict_def psr_params_def qa_def sq_def)

lemma psr_params_A1:
  "py_getattr psr_ecc psr_params ''A1'' = Inr (Scalar (sq (702 * 10 ^ 6) (U ''m'')))"
  by (simp add: py_getattr_def property_store_def stored_def lookup_dict_def psr_params_def)

lemma psr_params_XOMDOT:
  "py_getattr psr_ecc psr_params ''XOMDOT''
     = Inr (Scalar (sq 0 (Udiv (U ''deg'') (U ''yr''))))"
  by (simp add: py_getattr_def property_store_def stored_def lookup_dict_def psr_params_def)

lemma psr_params_no_d_k_d_A1:
  "py_getattr psr_ecc psr_params ''d_k_d_A1'' = Inl AttributeError"
  by (simp add: py_getattr_def property_store_def lookup_dict_def psr_params_def
      ddgr_methods_def)

lemma psr_params_no_d_GAMMA_d_A1:
  "py_getattr psr_ecc psr_params ''d_GAMMA_d_A1'' = Inl AttributeError"
  by (simp add: py_getattr_def property_store_def lookup_dict_def psr_params_def
      ddgr_methods_def)

text \<open>
  C7. Let \<open>par\<close> name an attribute of the model that carries a unit \<open>u\<close>, and let the model
  hold \<open>N\<close> observations. If the model has no attribute \<open>d_k_d_{par}\<close>, then \<open>d_k_d_par\<close>
  returns, without raising, \<open>N\<close> zeros with the unit "dimensionless over \<open>u\<close>"; if it has no
  attribute \<open>d_GAMMA_d_{par}\<close>, then \<open>d_GAMMA_d_par\<close> returns \<open>N\<close> zeros with the unit
  "second over \<open>u\<close>".
\<close>

theorem dispatch_fallback_zeros:
  assumes "py_getattr ecc self par = Inr par_obj" and "unit_of par_obj = Inr u"
    and "len_tt0 self = Inr N"
  shows "(py_getattr ecc self (''d_k_d_'' @ par) = Inl AttributeError \<longrightarrow>
            d_k_d_par G c ecc self par
              = Inr (Array (qa (replicate N 0) (Udiv (U '''') u))))
       \<and> (py_getattr ecc self (''d_GAMMA_d_'' @ par) = Inl AttributeError \<longrightarrow>
            d_GAMMA_d_par G c ecc self par
              = Inr (Array (qa (replicate N 0) (Udiv (U ''s'') u))))"
  using assms by (simp add: d_k_d_par_def d_GAMMA_d_par_def bindE_def filled_value)

theorem dispatch_fallback_zeros_witness:
  "py_getattr psr_ecc psr_params ''A1'' = Inr (Scalar (sq (702 * 10 ^ 6) (U ''m'')))
   \<and> unit_of (Scalar (sq (702 * 10 ^ 6) (U ''m''))) = Inr (U ''m'')
   \<and> len_tt0 psr_params = Inr 2
   \<and> py_getattr psr_ecc psr_params (''d_k_d_'' @ ''A1'') = Inl AttributeError
   \<and> d_k_d_par G_SI c_SI psr_ecc psr_params ''A1''
       = Inr (Array (qa (replicate 2 0) (Udiv (U '''') (U ''m''))))
   \<and> py_getattr psr_ecc psr_params (''d_GAMMA_d_'' @ ''A1'') = Inl AttributeError
   \<and> d_GAMMA_d_par G_SI c_SI psr_ecc psr_params ''A1''
       = Inr (Array (qa (replicate 2 0) (Udiv (U ''s'') (U ''m''))))"
proof -
  have u: "unit_of (Scalar (sq (702 * 10 ^ 6) (U ''m''))) = Inr (U ''m'')"
    by (simp add: unit_of_def sq_def)
  have k: "py_getattr psr_ecc psr_params (''d_k_d_'' @ ''A1'') = Inl AttributeError"
    using psr_params_no_d_k_d_A1 by simp
  have g: "py_getattr psr_ecc psr_params (''d_GAMMA_d_'' @ ''A1'') = Inl AttributeError"
    using psr_params_no_d_GAMMA_d_A1 by simp
  from dispatch_fallback_zeros [OF psr_params_A1 u psr_params_tt0, of G_SI c_SI]
    psr_params_A1 u psr_params_tt0 k g
  show ?thesis by blast
qed

text \<open>
  C9. For a name \<open>par\<close> that resolves to an attribute, \<open>d_OMDOT_d_par\<close> returns a callable
  and not an array. Called on a model with \<open>N\<close> observations, the callable yields \<open>N\<close>
  ones when \<open>par\<close> is \<open>XOMDOT\<close> and \<open>N\<close> zeros otherwise, in degrees per year over the unit
  of the attribute.
\<close>

theorem d_OMDOT_d_par_callable:
  assumes "py_getattr ecc self par = Inr par_obj" and "unit_of par_obj = Inr u"
    and "len_tt0 self' = Inr N"
  shows "\<exists>f. d_OMDOT_d_par ecc self par = Inr f
           \<and> f self' = Inr (Array (qa (replicate N (if par = ''XOMDOT'' then 1 else 0))
                                      (Udiv (Udiv (U ''deg'') (U ''yr'')) u)))"
  using assms by (simp add: d_OMDOT_d_par_def bindE_def filled_value)

theorem d_OMDOT_d_par_callable_witness:
  "py_getattr psr_ecc psr_params ''XOMDOT''
     = Inr (Scalar (sq 0 (Udiv (U ''deg'') (U ''yr''))))
   \<and> unit_of (Scalar (sq 0 (Udiv (U ''deg'') (U ''yr'')))) = Inr (Udiv (U ''deg'') (U ''yr''))
   \<and> len_tt0 psr_params = Inr 2
   \<and> (\<exists>f. d_OMDOT_d_par psr_ecc psr_params ''XOMDOT'' = Inr f
         \<and> f psr_params = Inr (Array (qa (replicate 2 1)
                 (Udiv (Udiv (U ''deg'') (U ''yr'')) (Udiv (U ''deg'') (U ''yr''))))))"
proof -
  have u: "unit_of (Scalar (sq 0 (Udiv (U ''deg'') (U ''yr''))))
             = Inr (Udiv (U ''deg'') (U ''yr''))"
    by (simp add: unit_of_def sq_def)
  from d_OMDOT_d_par_callable [OF psr_params_XOMDOT u psr_params_tt0]
    psr_params_XOMDOT u psr_params_tt0
  show ?thesis by simp
qed

section \<open>Facts about the ignored setters and the concrete instance\<close>

lemma psr_value:
  "updatePK G_SI c_SI psr_a1 psr_ecc (1 / 10 ^ 10) psr_params = Some psr"
  by (simp add: psr_def updatePK_def psr_params_def pval_def sq_def solve_kepler_value
      Let_def)

lemma psr_OMDOT_array:
  "arr_of psr ''_OMDOT''
     = Inr (map (\<lambda>e. 3 * (2 * pi / 27907) powr (5 / 3) * (1 / (1 - e\<^sup>2))
                      * (G_SI * (5623 * 10 ^ 27) / c_SI ^ 3) powr (2 / 3)) psr_ecc)"
  by (simp add: psr_def updatePK_def psr_params_def pval_def sq_def qa_def arr_of_def
      solve_kepler_value Let_def)

lemma psr_XOMDOT:
  "py_getattr psr_ecc psr ''OMDOT'' = Inr (Scalar (sq 0 (Udiv (U ''deg'') (U ''yr''))))"
  by (simp add: psr_def updatePK_def psr_params_def pval_def sq_def qa_def
      solve_kepler_value Let_def py_getattr_def property_store_def stored_def
      lookup_dict_def)

text \<open>
  C8 as the specification states it: after an assignment to one of the six ignored
  properties, reading that property gives the value derived under general relativity. For
  \<open>OMDOT\<close> that value is the stored \<open>_OMDOT\<close>. On the concrete instance the read after an
  assignment gives the excess \<open>XOMDOT\<close>, which is zero, while both entries of \<open>_OMDOT\<close>
  are positive.
\<close>

theorem OMDOT_read_not_derived:
  "py_getattr psr_ecc (OMDOT_setter psr (Scalar (sq 1 (Udiv (U ''deg'') (U ''yr''))))) ''OMDOT''
     = Inr (Scalar (sq 0 (Udiv (U ''deg'') (U ''yr''))))
   \<and> py_getattr psr_ecc (OMDOT_setter psr (Scalar (sq 1 (Udiv (U ''deg'') (U ''yr''))))) ''OMDOT''
       \<noteq> stored psr ''_OMDOT''
   \<and> (case arr_of psr ''_OMDOT'' of
         Inr xs \<Rightarrow> length xs = 2 \<and> 0 < xs ! 0 \<and> 0 < xs ! 1
       | Inl e \<Rightarrow> False)"
proof -
  have "stored psr ''_OMDOT'' \<noteq> Inr (Scalar (sq 0 (Udiv (U ''deg'') (U ''yr''))))"
    by (simp add: psr_def updatePK_def psr_params_def pval_def sq_def qa_def
        solve_kepler_value Let_def stored_def lookup_dict_def)
  moreover have "(0::real) < 1 - (617 / 1000)\<^sup>2"
    by (simp add: power2_eq_square)
  then have "case arr_of psr ''_OMDOT'' of
         Inr xs \<Rightarrow> length xs = 2 \<and> 0 < xs ! 0 \<and> 0 < xs ! 1
       | Inl e \<Rightarrow> False"
    by (simp add: psr_OMDOT_array psr_ecc_def G_SI_def c_SI_def)
  ultimately show ?thesis
    by (simp add: OMDOT_setter_def psr_XOMDOT)
qed

text \<open>
  C8, amended. An assignment to \<open>SINI\<close>, \<open>PBDOT\<close>, \<open>OMDOT\<close>, \<open>GAMMA\<close>, \<open>DR\<close> or \<open>DTH\<close>
  leaves the whole instance as it was, whatever the value, and a read of the property
  afterwards does not return the assigned value but the stored \<open>_SINI\<close>, \<open>_PBDOT\<close>,
  \<open>_GAMMA\<close>, \<open>_DR\<close>, \<open>_DTH\<close>, and for \<open>OMDOT\<close> the excess parameter \<open>XOMDOT\<close>.
\<close>

theorem ignored_setters_noop:
  "SINI_setter self v = self \<and> PBDOT_setter self v = self \<and> OMDOT_setter self v = self
   \<and> GAMMA_setter self v = self \<and> DR_setter self v = self \<and> DTH_setter self v = self
   \<and> py_getattr ecc (SINI_setter self v) ''SINI'' = stored self ''_SINI''
   \<and> py_getattr ecc (PBDOT_setter self v) ''PBDOT'' = stored self ''_PBDOT''
   \<and> py_getattr ecc (OMDOT_setter self v) ''OMDOT'' = stored self ''XOMDOT''
   \<and> py_getattr ecc (GAMMA_setter self v) ''GAMMA'' = stored self ''_GAMMA''
   \<and> py_getattr ecc (DR_setter self v) ''DR'' = stored self ''_DR''
   \<and> py_getattr ecc (DTH_setter self v) ''DTH'' = stored self ''_DTH''"
  by (simp add: SINI_setter_def PBDOT_setter_def OMDOT_setter_def GAMMA_setter_def
      DR_setter_def DTH_setter_def py_getattr_def property_store_def)

section \<open>Facts about the derivative of SINI with respect to A1\<close>

lemma newtonian_axis:
  assumes "0 < G" and "0 < MTOT" and "0 < (n::real)"
  shows "(MTOT\<^sup>2 * n\<^sup>2 / G) powr (1 / 3) = MTOT / (G * MTOT / n\<^sup>2) powr (1 / 3)"
proof -
  have "MTOT\<^sup>2 * n\<^sup>2 / G = MTOT ^ 3 / (G * MTOT / n\<^sup>2)"
    using assms by (simp add: field_simps power2_eq_square power3_eq_cube)
  then have "(MTOT\<^sup>2 * n\<^sup>2 / G) powr (1 / 3)
               = (MTOT ^ 3) powr (1 / 3) / (G * MTOT / n\<^sup>2) powr (1 / 3)"
    by (simp only: powr_divide)
  with assms(2) show ?thesis by (simp add: cube_root_cube)
qed

lemma updatePK_scalars:
  assumes "pval self ''_PB'' = Some PB" and "pval self ''_ECC'' = Some ECC"
    and "pval self ''_M2'' = Some M2" and "pval self ''_MTOT'' = Some MTOT"
    and "pval self ''_A1'' = Some A1" and "0 \<le> ARTOL"
    and "updatePK G c a1 ecc ARTOL self = Some self'"
  shows "num self' ''_MTOT'' = Inr MTOT" and "num self' ''_M2'' = Inr M2"
    and "num self' ''_n'' = Inr (2 * pi / PB)"
    and "num self' ''_arr'' =
           Inr (kepler_rhs G c (MTOT - M2) M2 (kepler_arr0 G (MTOT - M2) M2 (2 * pi / PB))
                  (kepler_arr0 G (MTOT - M2) M2 (2 * pi / PB)))"
proof -
  have eq: "self' = the (updatePK G c a1 ecc ARTOL self)" using assms(7) by simp
  show "num self' ''_MTOT'' = Inr MTOT"
    unfolding eq using assms(1-6)
    by (auto simp add: updatePK_def solve_kepler_value Let_def num_def sq_def pval_def
        split: option.splits)
  show "num self' ''_M2'' = Inr M2"
    unfolding eq using assms(1-6)
    by (auto simp add: updatePK_def solve_kepler_value Let_def num_def sq_def pval_def
        split: option.splits)
  show "num self' ''_n'' = Inr (2 * pi / PB)"
    unfolding eq using assms(1-6)
    by (simp add: updatePK_def solve_kepler_value Let_def num_def sq_def)
  show "num self' ''_arr'' =
           Inr (kepler_rhs G c (MTOT - M2) M2 (kepler_arr0 G (MTOT - M2) M2 (2 * pi / PB))
                  (kepler_arr0 G (MTOT - M2) M2 (2 * pi / PB)))"
    unfolding eq using assms(1-6)
    by (simp add: updatePK_def solve_kepler_value Let_def num_def sq_def)
qed

lemma d_SINI_d_A1_stored:
  assumes "num self ''_MTOT'' = Inr MTOT" and "num self ''_n'' = Inr n"
    and "num self ''_M2'' = Inr M2" and "0 < G" and "0 < MTOT" and "0 < n"
  shows "d_SINI_d_A1 G self
           = Inr (Scalar (sq (MTOT / ((G * MTOT / n\<^sup>2) powr (1 / 3) * M2))
                             (UnitOf ''d_SINI_d_A1'')))"
proof -
  have "((MTOT\<^sup>2 * n\<^sup>2 / G) powr (1 / 3)) / M2 = MTOT / ((G * MTOT / n\<^sup>2) powr (1 / 3) * M2)"
    using newtonian_axis [OF assms(4) assms(5) assms(6)] by simp
  then show ?thesis
    by (simp add: d_SINI_d_A1_def assms(1-3) bindE_def)
qed

lemma kepler_rhs_below:
  assumes "0 < kepler_K G c M1 M2" and "kepler_K G c M1 M2 < arr0"
  shows "0 < kepler_rhs G c M1 M2 arr0 arr0" and "kepler_rhs G c M1 M2 arr0 arr0 < arr0"
proof -
  define b where "b = 1 - kepler_K G c M1 M2 / arr0"
  have arr0: "0 < arr0" using assms by linarith
  have "kepler_K G c M1 M2 / arr0 < 1" using assms arr0 by simp
  moreover have "0 < kepler_K G c M1 M2 / arr0" using assms arr0 by simp
  ultimately have b: "0 < b" "b < 1" by (simp_all add: b_def)
  have "b powr (2 / 3) < 1 powr (2 / 3)"
    using b by (intro powr_less_mono2) simp_all
  then have p1: "b powr (2 / 3) < 1" by simp
  have p0: "0 < b powr (2 / 3)" using b by simp
  have eq: "kepler_rhs G c M1 M2 arr0 arr0 = arr0 * b powr (2 / 3)"
    by (simp add: kepler_rhs_K b_def)
  show "0 < kepler_rhs G c M1 M2 arr0 arr0" using arr0 p0 by (simp add: eq)
  have "arr0 * b powr (2 / 3) < arr0 * 1"
    using arr0 p1 by (intro mult_strict_left_mono) simp_all
  then show "kepler_rhs G c M1 M2 arr0 arr0 < arr0" by (simp add: eq)
qed

lemma psr_K_bounds:
  "0 < kepler_K G_SI c_SI (5623 * 10 ^ 27 - 2758 * 10 ^ 27) (2758 * 10 ^ 27)"
  "kepler_K G_SI c_SI (5623 * 10 ^ 27 - 2758 * 10 ^ 27) (2758 * 10 ^ 27) < 10 ^ 6"
  by (simp_all add: kepler_K_def G_SI_def c_SI_def)

lemma psr_arr0_lower:
  "10 ^ 6 \<le> kepler_arr0 G_SI (5623 * 10 ^ 27 - 2758 * 10 ^ 27) (2758 * 10 ^ 27) (2 * pi / 27907)"
proof -
  have "(2 * pi / 27907)\<^sup>2 \<le> (8 / 27907)\<^sup>2"
    using pi_less_4 pi_gt_zero by (intro power_mono) simp_all
  then have "G_SI * (5623 * 10 ^ 27) / (8 / 27907)\<^sup>2
               \<le> G_SI * (5623 * 10 ^ 27) / (2 * pi / 27907)\<^sup>2"
    by (intro divide_left_mono) (simp_all add: G_SI_def)
  moreover have "(10 ^ 6) ^ 3 \<le> G_SI * (5623 * 10 ^ 27) / (8 / 27907)\<^sup>2"
    by (simp add: G_SI_def power2_eq_square)
  ultimately have "(10 ^ 6) ^ 3 \<le> G_SI * (5623 * 10 ^ 27) / (2 * pi / 27907)\<^sup>2"
    by linarith
  then have "10 ^ 6 \<le> (G_SI * (5623 * 10 ^ 27) / (2 * pi / 27907)\<^sup>2) powr (1 / 3)"
    by (intro powr_third_lower) simp_all
  then show ?thesis by (simp add: kepler_arr0_def)
qed


text \<open>
  C4 as the specification states it: on a model whose post-Keplerian quantities have been
  computed, \<open>d_SINI_d_A1\<close> is \<open>MTOT / (arr * M2)\<close> with the relativistic axis \<open>arr\<close>. On
  the concrete instance both values exist and they differ.
\<close>

theorem d_SINI_d_A1_not_relativistic:
  "magnitude (d_SINI_d_A1 G_SI psr) \<noteq> None
   \<and> magnitude (d_SINI_d_A1_relativistic psr) \<noteq> None
   \<and> magnitude (d_SINI_d_A1 G_SI psr) \<noteq> magnitude (d_SINI_d_A1_relativistic psr)"
proof -
  define MTOT :: real where "MTOT = 5623 * 10 ^ 27"
  define M2 :: real where "M2 = 2758 * 10 ^ 27"
  define arr0 where "arr0 = kepler_arr0 G_SI (MTOT - M2) M2 (2 * pi / 27907)"
  define arr where "arr = kepler_rhs G_SI c_SI (MTOT - M2) M2 arr0 arr0"
  have p: "pval psr_params ''_PB'' = Some 27907" "pval psr_params ''_ECC'' = Some (617 / 1000)"
    "pval psr_params ''_M2'' = Some M2" "pval psr_params ''_MTOT'' = Some MTOT"
    "pval psr_params ''_A1'' = Some (702 * 10 ^ 6)"
    by (simp_all add: psr_params_def pval_def sq_def MTOT_def M2_def)
  have tol: "(0::real) < 1 / 10 ^ 10" "(0::real) \<le> 1 / 10 ^ 10" by simp_all
  have pos: "0 < G_SI" "0 < MTOT" "(0::real) < 27907" "0 < M2"
    by (simp_all add: G_SI_def MTOT_def M2_def)
  note sc = updatePK_scalars [OF p tol(2) psr_value]
  have n: "(0::real) < 2 * pi / 27907" by simp
  have newt: "d_SINI_d_A1 G_SI psr
        = Inr (Scalar (sq (MTOT / (arr0 * M2)) (UnitOf ''d_SINI_d_A1'')))"
    unfolding arr0_def kepler_arr0_def
    using d_SINI_d_A1_stored [OF sc(1) sc(3) sc(2) pos(1) pos(2) n] by simp
  have rel: "d_SINI_d_A1_relativistic psr
        = Inr (Scalar (sq (MTOT / (arr * M2)) (UnitOf ''d_SINI_d_A1'')))"
    by (simp add: d_SINI_d_A1_relativistic_def sc bindE_def arr_def arr0_def)
  have K: "0 < kepler_K G_SI c_SI (MTOT - M2) M2" "kepler_K G_SI c_SI (MTOT - M2) M2 < arr0"
    using psr_K_bounds psr_arr0_lower unfolding MTOT_def M2_def arr0_def by linarith+
  have arr: "0 < arr" "arr < arr0"
    unfolding arr_def by (rule kepler_rhs_below [OF K])+
  have lt: "arr * M2 < arr0 * M2" using arr pos by simp
  have p1: "0 < arr * M2" using arr pos by simp
  have p2: "0 < arr0 * M2" using arr pos by simp
  have "MTOT / (arr0 * M2) < MTOT / (arr * M2)"
    by (rule divide_strict_left_mono [OF lt pos(2) mult_pos_pos [OF p2 p1]])
  then have "MTOT / (arr0 * M2) \<noteq> MTOT / (arr * M2)" by linarith
  then show ?thesis by (simp only: newt rel magnitude_def sq_def) simp
qed


text \<open>
  C4, amended. On a model whose post-Keplerian quantities have been computed from positive
  \<open>MTOT\<close> and \<open>PB\<close>, \<open>d_SINI_d_A1\<close> is \<open>MTOT / (arr0 * M2)\<close>, where \<open>arr0\<close> is the
  non-relativistic semi-major axis \<open>(G * MTOT / n ^ 2) powr (1/3)\<close> with \<open>n = 2 pi / PB\<close>.
\<close>

theorem d_SINI_d_A1_newtonian:
  assumes "pval self ''_PB'' = Some PB" and "pval self ''_ECC'' = Some ECC"
    and "pval self ''_M2'' = Some M2" and "pval self ''_MTOT'' = Some MTOT"
    and "pval self ''_A1'' = Some A1" and "0 < ARTOL"
    and "0 < G" and "0 < MTOT" and "0 < PB"
    and "updatePK G c a1 ecc ARTOL self = Some self'"
  shows "d_SINI_d_A1 G self'
           = Inr (Scalar (sq (MTOT / (kepler_arr0 G (MTOT - M2) M2 (2 * pi / PB) * M2))
                             (UnitOf ''d_SINI_d_A1'')))"
proof -
  from assms(6) have tol: "0 \<le> ARTOL" by simp
  note sc = updatePK_scalars [OF assms(1-5) tol assms(10)]
  from assms(9) have n: "0 < 2 * pi / PB" by simp
  from d_SINI_d_A1_stored [OF sc(1) sc(3) sc(2) assms(7) assms(8) n]
  show ?thesis by (simp add: kepler_arr0_def)
qed

theorem d_SINI_d_A1_newtonian_witness:
  "pval psr_params ''_PB'' = Some 27907 \<and> pval psr_params ''_ECC'' = Some (617 / 1000)
   \<and> pval psr_params ''_M2'' = Some (2758 * 10 ^ 27)
   \<and> pval psr_params ''_MTOT'' = Some (5623 * 10 ^ 27)
   \<and> pval psr_params ''_A1'' = Some (702 * 10 ^ 6) \<and> (0::real) < 1 / 10 ^ 10
   \<and> 0 < G_SI \<and> (0::real) < 5623 * 10 ^ 27 \<and> (0::real) < 27907
   \<and> updatePK G_SI c_SI psr_a1 psr_ecc (1 / 10 ^ 10) psr_params = Some psr
   \<and> d_SINI_d_A1 G_SI psr
       = Inr (Scalar (sq (5623 * 10 ^ 27
                          / (kepler_arr0 G_SI (5623 * 10 ^ 27 - 2758 * 10 ^ 27)
                               (2758 * 10 ^ 27) (2 * pi / 27907) * (2758 * 10 ^ 27)))
                         (UnitOf ''d_SINI_d_A1'')))"
proof -
  have p: "pval psr_params ''_PB'' = Some 27907" "pval psr_params ''_ECC'' = Some (617 / 1000)"
    "pval psr_params ''_M2'' = Some (2758 * 10 ^ 27)"
    "pval psr_params ''_MTOT'' = Some (5623 * 10 ^ 27)"
    "pval psr_params ''_A1'' = Some (702 * 10 ^ 6)"
    by (simp_all add: psr_params_def pval_def sq_def)
  have q: "(0::real) < 1 / 10 ^ 10" "0 < G_SI" "(0::real) < 5623 * 10 ^ 27" "(0::real) < 27907"
    by (simp_all add: G_SI_def)
  from d_SINI_d_A1_newtonian [OF p q psr_value] p q psr_value
  show ?thesis by blast
qed

section \<open>Facts about the store\<close>

lemma modify_wf [simp]: "wf_fitter (modify h ftr s) r = wf_fitter h r"
  by (cases "r = ftr"; cases "ftr < length (fitters h)")
    (simp_all add: wf_fitter_def modify_def list_update_beyond)

lemma modify_contents [simp]: "wf_fitter h ftr \<Longrightarrow> contents (modify h ftr s) ftr = s"
  by (simp add: wf_fitter_def modify_def contents_def)

lemma modify_modify [simp]: "modify (modify h ftr s) ftr t = modify h ftr t"
  by (cases "ftr < length (fitters h)") (simp_all add: modify_def list_update_beyond)

lemma modify_same: "wf_fitter h ftr \<Longrightarrow> modify h ftr (contents h ftr) = h"
  by (simp add: modify_def contents_def)

lemma modify_lengths [simp]:
  "length (fitters (modify h ftr s)) = length (fitters h)"
  "length (tmodels (modify h ftr s)) = length (tmodels h)"
  by (simp_all add: modify_def)

lemma modify_model_ref [simp]: "model (fitters (modify h ftr s) ! r) = model (fitters h ! r)"
  by (cases "r = ftr"; cases "ftr < length (fitters h)")
    (simp_all add: modify_def list_update_beyond)

lemma set_frozen_modify:
  assumes "wf_fitter h ftr"
  shows "set_frozen h ftr parname =
           bindE (freeze1 (fst (contents h ftr)) parname)
             (\<lambda>m. Inr (modify h ftr (m, snd (contents h ftr))))"
  using assms
  by (simp add: set_frozen_def freeze1_def bindE_def get_fitter_def get_model_def
      wf_fitter_def contents_def modify_def split: option.splits)

lemma set_quantity_modify:
  assumes "wf_fitter h ftr"
  shows "set_quantity h ftr parname v =
           bindE (assign1 (fst (contents h ftr)) parname v)
             (\<lambda>m. Inr (modify h ftr (m, snd (contents h ftr))))"
  using assms
  by (simp add: set_quantity_def assign1_def bindE_def get_fitter_def get_model_def
      wf_fitter_def contents_def modify_def split: option.splits)

lemma fit_toas_modify:
  assumes "wf_fitter h ftr"
  shows "fit_toas fit h ftr
           = Inr (fst (fit (contents h ftr)), modify h ftr (snd (fit (contents h ftr))))"
  using assms
  by (simp add: fit_toas_def bindE_def get_fitter_def get_model_def wf_fitter_def
      contents_def modify_def split: prod.splits)

subsection \<open>The loops on the store are the loops on the fitter state\<close>

lemma bindE_Inl [simp]: "bindE (Inl e) f = Inl e"
  by (simp add: bindE_def)

lemma bindE_Inr [simp]: "bindE (Inr x) f = f x"
  by (simp add: bindE_def)

lemma freeze_and_set_modify:
  "wf_fitter h ftr \<Longrightarrow>
   freeze_and_set h ftr zs =
     bindE (freeze_and_set_model (fst (contents h ftr)) zs)
       (\<lambda>m. Inr (modify h ftr (m, snd (contents h ftr))))"
proof (induction zs arbitrary: h)
  case Nil
  then show ?case by (simp add: modify_same)
next
  case (Cons z zs)
  obtain parname parvalue where z: "z = (parname, parvalue)" by (cases z)
  show ?case
  proof (cases "freeze1 (fst (contents h ftr)) parname")
    case (Inl e)
    with Cons.prems show ?thesis by (simp add: z set_frozen_modify)
  next
    case (Inr m1)
    show ?thesis
    proof (cases "assign1 m1 parname parvalue")
      case (Inl e)
      with Inr Cons.prems show ?thesis
        by (simp add: z set_frozen_modify set_quantity_modify)
    next
      case m2: (Inr m2)
      with Inr Cons.prems show ?thesis
        by (simp add: z set_frozen_modify set_quantity_modify Cons.IH)
    qed
  qed
qed

lemma freeze_all_modify:
  "wf_fitter h ftr \<Longrightarrow>
   freeze_all h ftr ps =
     bindE (freeze_all_model (fst (contents h ftr)) ps)
       (\<lambda>m. Inr (modify h ftr (m, snd (contents h ftr))))"
proof (induction ps arbitrary: h)
  case Nil
  then show ?case by (simp add: modify_same)
next
  case (Cons p ps)
  then show ?case
    by (cases "freeze1 (fst (contents h ftr)) p") (simp_all add: set_frozen_modify)
qed

lemma set_point_modify:
  "wf_fitter h ftr \<Longrightarrow>
   set_point h ftr es pt =
     bindE (set_point_model (fst (contents h ftr)) es pt)
       (\<lambda>m. Inr (modify h ftr (m, snd (contents h ftr))))"
proof (induction es arbitrary: h)
  case Nil
  then show ?case by (simp add: modify_same)
next
  case (Cons e es)
  obtain parnum parname where e: "e = (parnum, parname)" by (cases e)
  from Cons show ?case
    by (cases "assign1 (fst (contents h ftr)) parname (pt ! parnum)")
      (simp_all add: e set_quantity_modify)
qed

lemma grid_loop_modify:
  "wf_fitter h ftr \<Longrightarrow>
   grid_loop fit h ftr parnames pts =
     bindE (grid_loop_model fit (contents h ftr) parnames pts)
       (\<lambda>(chis, s'). Inr (chis, modify h ftr s'))"
proof (induction pts arbitrary: h)
  case Nil
  then show ?case by (simp add: modify_same)
next
  case (Cons pt pts)
  show ?case
  proof (cases "set_point_model (fst (contents h ftr)) (enumerate 0 parnames) pt")
    case (Inl e)
    with Cons.prems show ?thesis by (simp add: set_point_modify)
  next
    case (Inr m1)
    let ?h1 = "modify h ftr (m1, snd (contents h ftr))"
    let ?s = "snd (fit (m1, snd (contents h ftr)))"
    have wf1: "wf_fitter ?h1 ftr" using Cons.prems by simp
    have wf2: "wf_fitter (modify ?h1 ftr ?s) ftr" using Cons.prems by simp
    show ?thesis
      using Cons.prems Inr Cons.IH [OF wf2]
      by (cases "grid_loop_model fit ?s parnames pts")
        (auto simp add: set_point_modify fit_toas_modify split: prod.splits)
  qed
qed

subsection \<open>Copies and the worker\<close>

lemma prefix_nth: "prefix xs ys \<Longrightarrow> i < length xs \<Longrightarrow> ys ! i = xs ! i"
  by (auto simp add: prefix_def nth_append)

lemma extends_refl [simp]: "extends h h"
  by (simp add: extends_def)

lemma extends_trans: "extends h h1 \<Longrightarrow> extends h1 h2 \<Longrightarrow> extends h h2"
  by (auto simp add: extends_def)

lemma extends_wf: "extends h h' \<Longrightarrow> wf_fitter h ftr \<Longrightarrow> wf_fitter h' ftr"
  by (auto simp add: extends_def wf_fitter_def prefix_nth dest: prefix_length_le)

lemma extends_contents:
  "extends h h' \<Longrightarrow> wf_fitter h ftr \<Longrightarrow> contents h' ftr = contents h ftr"
proof -
  assume e: "extends h h'" and w: "wf_fitter h ftr"
  from e w have f: "fitters h' ! ftr = fitters h ! ftr"
    by (simp add: extends_def wf_fitter_def prefix_nth)
  from e w have "tmodels h' ! model (fitters h ! ftr) = tmodels h ! model (fitters h ! ftr)"
    by (simp add: extends_def wf_fitter_def prefix_nth)
  with f show ?thesis by (simp add: contents_def)
qed

lemma deepcopy_fitter_value:
  assumes "wf_fitter h ftr"
  shows "deepcopy_fitter h ftr =
           Inr (length (fitters h),
                h\<lparr>tmodels := tmodels h @ [fst (contents h ftr)],
                  fitters := fitters h @ [(fitters h ! ftr)\<lparr>model := length (tmodels h)\<rparr>]\<rparr>)"
  using assms
  by (simp add: deepcopy_fitter_def deepcopy_model_def get_fitter_def get_model_def
      wf_fitter_def contents_def)

lemma copy_modified_extends:
  "extends h
     (modify (h\<lparr>tmodels := tmodels h @ [m],
               fitters := fitters h @ [f\<lparr>model := length (tmodels h)\<rparr>]\<rparr>)
        (length (fitters h)) s)"
  by (simp add: extends_def modify_def)

lemma grid_doonefit_value:
  assumes "wf_fitter h ftr"
  shows "case grid_doonefit fit h ftr parnames pt of
           Inl e \<Rightarrow> point_chisq fit (contents h ftr) parnames pt = Inl e
         | Inr (chi, h') \<Rightarrow>
             point_chisq fit (contents h ftr) parnames pt = Inr chi \<and> extends h h'"
proof -
  let ?h1 = "h\<lparr>tmodels := tmodels h @ [fst (contents h ftr)],
                fitters := fitters h @ [(fitters h ! ftr)\<lparr>model := length (tmodels h)\<rparr>]\<rparr>"
  let ?my = "length (fitters h)"
  have wf1: "wf_fitter ?h1 ?my" by (simp add: wf_fitter_def)
  have c1: "contents ?h1 ?my = contents h ftr" by (simp add: contents_def)
  show ?thesis
  proof (cases "freeze_and_set_model (fst (contents h ftr)) (zip parnames pt)")
    case (Inl e)
    then show ?thesis
      using assms wf1 c1
      by (simp add: grid_doonefit_def deepcopy_fitter_value freeze_and_set_modify
          point_chisq_def)
  next
    case (Inr m)
    then show ?thesis
      using assms wf1 c1
      by (simp add: grid_doonefit_def deepcopy_fitter_value freeze_and_set_modify
          point_chisq_def fit_toas_modify copy_modified_extends)
  qed
qed

lemma pool_map_value:
  assumes "wf_fitter h ftr"
  shows "case pool_map (\<lambda>h' pt. grid_doonefit fit h' ftr parnames pt) h pts of
           Inl e \<Rightarrow> collect (map (point_chisq fit (contents h ftr) parnames) pts) = Inl e
         | Inr (rs, h') \<Rightarrow>
             collect (map (point_chisq fit (contents h ftr) parnames) pts) = Inr rs
             \<and> extends h h'"
  using assms
proof (induction pts arbitrary: h)
  case Nil
  then show ?case by simp
next
  case (Cons pt pts)
  show ?case
  proof (cases "grid_doonefit fit h ftr parnames pt")
    case (Inl e)
    with grid_doonefit_value [OF Cons.prems, of fit parnames pt] show ?thesis by simp
  next
    case (Inr r)
    obtain chi h1 where r: "r = (chi, h1)" by (cases r)
    from grid_doonefit_value [OF Cons.prems, of fit parnames pt] Inr r
    have pc: "point_chisq fit (contents h ftr) parnames pt = Inr chi" and ext: "extends h h1"
      by simp_all
    have wf1: "wf_fitter h1 ftr" using ext Cons.prems by (rule extends_wf)
    have c1: "contents h1 ftr = contents h ftr" using ext Cons.prems by (rule extends_contents)
    from Cons.IH [OF wf1] show ?thesis
      using Inr r pc c1 ext
      by (cases "pool_map (\<lambda>h' pt. grid_doonefit fit h' ftr parnames pt) h1 pts")
        (auto intro: extends_trans)
  qed
qed


subsection \<open>The two grid functions in terms of the fitter state\<close>

lemma grid_chisq_mp_value:
  assumes "wf_fitter h ftr"
  shows "chisq_of (grid_chisq_mp fit h ftr parnames parvalues) =
           (if parvalues = [] then Inl IndexError
            else if grid_points parvalues = [] then Inl ValueError
            else bindE (collect (map (point_chisq fit (contents h ftr) parnames)
                                   (grid_points parvalues)))
                   (\<lambda>rs. Inr \<lparr>shape = grid_shape parvalues, flat = rs\<rparr>))"
  using pool_map_value [OF assms, of fit parnames "grid_points parvalues"]
  by (auto simp add: chisq_of_def grid_chisq_mp_def Let_def split: sum.splits prod.splits)

lemma grid_chisq_mp_frame:
  assumes "wf_fitter h ftr"
    and "grid_chisq_mp fit h ftr parnames parvalues = Inr (g, h')"
  shows "extends h h'"
  using pool_map_value [OF assms(1), of fit parnames "grid_points parvalues"] assms(2)
  by (auto simp add: grid_chisq_mp_def Let_def bindE_def split: sum.splits prod.splits if_splits)

lemma grid_chisq_steps:
  assumes "wf_fitter h ftr"
  shows "grid_chisq fit h ftr parnames parvalues =
           bindE (freeze_all_model (fst (contents h ftr)) parnames) (\<lambda>m.
             if parvalues = [] then Inl IndexError
             else if grid_points parvalues = [] then Inl ValueError
             else bindE (grid_loop_model fit (m, snd (contents h ftr)) parnames
                           (grid_points parvalues))
                    (\<lambda>(chis, s').
                       Inr (\<lparr>shape = grid_shape parvalues, flat = chis\<rparr>,
                            h\<lparr>tmodels := tmodels h @ [fst s'],
                              fitters := (fitters h)[ftr := (fitters h ! ftr)\<lparr>rest := snd s'\<rparr>]\<rparr>)))"
proof -
  let ?f = "fitters h ! ftr"
  let ?g = "length (tmodels h)"
  let ?h2 = "h\<lparr>tmodels := tmodels h @ [fst (contents h ftr)],
                fitters := (fitters h)[ftr := ?f\<lparr>model := ?g\<rparr>]\<rparr>"
  have wf2: "wf_fitter ?h2 ftr" using assms by (simp add: wf_fitter_def)
  have c2: "contents ?h2 ftr = contents h ftr" using assms by (simp add: wf_fitter_def contents_def)
  have start: "grid_chisq fit h ftr parnames parvalues =
      bindE (freeze_all ?h2 ftr parnames) (\<lambda>h3.
                 if parvalues = [] then Inl IndexError
                 else let out = grid_points parvalues
                      in if out = [] then Inl ValueError
                         else bindE (grid_loop fit h3 ftr parnames out) (\<lambda>(chi2, h4).
                                bindE (get_fitter h4 ftr) (\<lambda>f4.
                                  Inr (\<lparr>shape = grid_shape parvalues, flat = chi2\<rparr>,
                                       h4\<lparr>fitters := (fitters h4)[ftr := f4\<lparr>model := model ?f\<rparr>]\<rparr>))))"
    using assms
    by (simp add: grid_chisq_def get_fitter_def deepcopy_model_def get_model_def wf_fitter_def
        contents_def Let_def)
  have fin: "(modify ?h2 ftr s')\<lparr>fitters :=
                 (fitters (modify ?h2 ftr s'))[ftr := (fitters (modify ?h2 ftr s') ! ftr)\<lparr>model := model ?f\<rparr>]\<rparr>
             = h\<lparr>tmodels := tmodels h @ [fst s'],
                 fitters := (fitters h)[ftr := ?f\<lparr>rest := snd s'\<rparr>]\<rparr>" for s'
    using assms by (simp add: modify_def wf_fitter_def)
  show ?thesis
  proof (cases "freeze_all_model (fst (contents h ftr)) parnames")
    case (Inl e)
    then show ?thesis using wf2 c2 by (simp add: start freeze_all_modify)
  next
    case (Inr m)
    let ?h3 = "modify ?h2 ftr (m, snd (contents h ftr))"
    have wf3: "wf_fitter ?h3 ftr" using wf2 by simp
    have c3: "contents ?h3 ftr = (m, snd (contents h ftr))" using wf2 by simp
    show ?thesis
    proof (cases "grid_loop_model fit (m, snd (contents h ftr)) parnames (grid_points parvalues)")
      case (Inl e)
      then show ?thesis
        using Inr wf2 c2 wf3 c3
        by (simp add: start freeze_all_modify grid_loop_modify Let_def)
    next
      case r: (Inr r)
      obtain chis s' where rr: "r = (chis, s')" by (cases r)
      have gf: "get_fitter (modify ?h2 ftr s') ftr = Inr (fitters (modify ?h2 ftr s') ! ftr)"
        using assms by (simp add: get_fitter_def wf_fitter_def)
      show ?thesis
        using Inr r rr wf2 c2 wf3 c3
        by (simp add: start freeze_all_modify grid_loop_modify Let_def gf fin)
    qed
  qed
qed

section \<open>Facts about the two loops on a model\<close>

lemma freeze1_dom: "n \<in> dom m \<Longrightarrow> freeze1 m n = Inr (upd_f n m)"
  by (auto simp add: freeze1_def upd_f_def)

lemma assign1_dom: "n \<in> dom m \<Longrightarrow> assign1 m n v = Inr (upd_q (n, v) m)"
  by (auto simp add: assign1_def upd_q_def)

lemma dom_upd_f [simp]: "dom (upd_f n m) = dom m"
  by (auto simp add: upd_f_def split: option.splits)

lemma dom_upd_q [simp]: "dom (upd_q z m) = dom m"
  by (auto simp add: upd_q_def split: option.splits)

lemma dom_fold_upd_f [simp]: "dom (fold upd_f ns m) = dom m"
  by (induction ns arbitrary: m) simp_all

lemma dom_fold_upd_q [simp]: "dom (fold upd_q zs m) = dom m"
  by (induction zs arbitrary: m) simp_all

lemma upd_f_upd_q: "upd_f n (upd_q z m) = upd_q z (upd_f n m)"
  by (cases z) (auto simp add: upd_f_def upd_q_def fun_upd_twist split: option.splits)

lemma fold_upd_f_upd_q: "fold upd_f ns (upd_q z m) = upd_q z (fold upd_f ns m)"
  by (induction ns arbitrary: m) (simp_all add: upd_f_upd_q)

lemma freeze_all_model_dom:
  "set ns \<subseteq> dom m \<Longrightarrow> freeze_all_model m ns = Inr (fold upd_f ns m)"
  by (induction ns arbitrary: m) (simp_all add: freeze1_dom)

lemma freeze_and_set_model_dom:
  "set ns \<subseteq> dom m \<Longrightarrow> length ns \<le> length pt \<Longrightarrow>
   freeze_and_set_model m (zip ns pt) = Inr (fold upd_q (zip ns pt) (fold upd_f ns m))"
proof (induction ns arbitrary: m pt)
  case Nil
  then show ?case by simp
next
  case (Cons n ns)
  then obtain v vs where pt: "pt = v # vs" by (cases pt) auto
  from Cons.prems have "n \<in> dom m" "set ns \<subseteq> dom (upd_q (n, v) (upd_f n m))"
    "length ns \<le> length vs"
    by (auto simp add: pt)
  then show ?case
    by (simp add: pt freeze1_dom assign1_dom Cons.IH fold_upd_f_upd_q)
qed

lemma set_point_model_dom:
  "set ns \<subseteq> dom m \<Longrightarrow> k + length ns \<le> length pt \<Longrightarrow>
   set_point_model m (enumerate k ns) pt = Inr (fold upd_q (zip ns (drop k pt)) m)"
proof (induction ns arbitrary: m k)
  case Nil
  then show ?case by simp
next
  case (Cons n ns)
  from Cons.prems have k: "k < length pt" by simp
  then have d: "drop k pt = pt ! k # drop (Suc k) pt" by (simp add: Cons_nth_drop_Suc)
  from Cons.prems have "n \<in> dom m" "set ns \<subseteq> dom (upd_q (n, pt ! k) m)"
    "Suc k + length ns \<le> length pt"
    by auto
  then show ?case
    using k by (simp add: d assign1_dom Cons.IH)
qed

lemma upd_q_apply:
  "upd_q (n, v) M x = (if x = n then map_option (\<lambda>p. p\<lparr>quantity := v\<rparr>) (M x) else M x)"
  by (simp add: upd_q_def split: option.splits)

lemma fold_upd_q_apply:
  "fold upd_q zs m x =
     map_option (\<lambda>p. case map_of (rev zs) x of None \<Rightarrow> p | Some v \<Rightarrow> p\<lparr>quantity := v\<rparr>) (m x)"
proof (induction zs rule: rev_induct)
  case Nil
  then show ?case by (simp add: option.map_ident)
next
  case (snoc z zs)
  obtain n v where z: "z = (n, v)" by (cases z)
  have "fold upd_q (zs @ [z]) m x = upd_q (n, v) (fold upd_q zs m) x"
    by (simp add: z)
  also have "\<dots> = (if x = n then map_option (\<lambda>p. p\<lparr>quantity := v\<rparr>) (fold upd_q zs m x)
                    else fold upd_q zs m x)"
    by (rule upd_q_apply)
  finally have step: "fold upd_q (zs @ [z]) m x =
      (if x = n then map_option (\<lambda>p. p\<lparr>quantity := v\<rparr>) (fold upd_q zs m x)
       else fold upd_q zs m x)" .
  show ?case
    unfolding step snoc.IH
    by (cases "m x"; cases "map_of (rev zs) x") (auto simp add: z)
qed

lemma zip_keys: "length ns \<le> length pt \<Longrightarrow> fst ` set (zip ns pt) = set ns"
proof -
  assume "length ns \<le> length pt"
  then have "map fst (zip ns pt) = ns" by (simp add: map_fst_zip_take)
  then have "set (map fst (zip ns pt)) = set ns" by simp
  then show ?thesis by simp
qed

lemma fold_upd_q_override:
  assumes "length ns \<le> length pt" and "length ns \<le> length pt'"
  shows "fold upd_q (zip ns pt) (fold upd_q (zip ns pt') m) = fold upd_q (zip ns pt) m"
proof
  fix x
  show "fold upd_q (zip ns pt) (fold upd_q (zip ns pt') m) x = fold upd_q (zip ns pt) m x"
  proof (cases "x \<in> set ns")
    case True
    then have "x \<in> fst ` set (rev (zip ns pt))" using assms(1) by (simp add: zip_keys)
    then obtain v where "map_of (rev (zip ns pt)) x = Some v"
      by (metis map_of_eq_None_iff not_Some_eq)
    then show ?thesis
      by (cases "m x"; cases "map_of (rev (zip ns pt')) x") (simp_all add: fold_upd_q_apply)
  next
    case False
    then have "x \<notin> fst ` set (rev (zip ns pt))" "x \<notin> fst ` set (rev (zip ns pt'))"
      using assms by (simp_all add: zip_keys)
    then have "map_of (rev (zip ns pt)) x = None" "map_of (rev (zip ns pt')) x = None"
      by (simp_all add: map_of_eq_None_iff)
    then show ?thesis by (cases "m x") (simp_all add: fold_upd_q_apply)
  qed
qed

lemma grid_points_length: "pt \<in> set (grid_points vals) \<Longrightarrow> length pt = length vals"
proof (induction vals rule: grid_points.induct)
  case 1
  then show ?case by simp
next
  case (2 x)
  then show ?case by auto
next
  case (3 x0 x1 others)
  then show ?case by (auto simp add: in_set_product_lists_length)
qed

lemma collect_Inr: "collect (map (\<lambda>x. Inr (g x)) xs) = Inr (map g xs)"
  by (induction xs) simp_all


lemma history_free_fold:
  assumes "history_free fit R" and "R s t"
  shows "R (fold upd_q zs (fst s), snd s) (fold upd_q zs (fst t), snd t)"
  using assms(2)
proof (induction zs arbitrary: s t)
  case Nil
  then show ?case by simp
next
  case (Cons z zs)
  from assms(1) Cons.prems have "R (upd_q z (fst s), snd s) (upd_q z (fst t), snd t)"
    unfolding history_free_def by blast
  from Cons.IH [OF this] show ?case by simp
qed

lemma at_point_override:
  "length ns \<le> length pt \<Longrightarrow> length ns \<le> length pt' \<Longrightarrow>
   at_point ns pt (at_point ns pt' s) = at_point ns pt s"
  by (simp add: at_point_def fold_upd_q_override)

lemma grid_loop_model_history_free:
  assumes hf: "history_free fit R"
    and names: "set ns \<subseteq> dom (fst base)"
    and len: "length ns \<le> N"
    and pts: "\<forall>pt \<in> set pts. length pt = N"
    and dom: "dom (fst s) = dom (fst base)"
    and inv: "\<forall>pt. length pt = N \<longrightarrow> R (at_point ns pt s) (at_point ns pt base)"
  shows "\<exists>s'. grid_loop_model fit s ns pts
                = Inr (map (\<lambda>pt. fst (fit (at_point ns pt base))) pts, s')"
  using pts dom inv
proof (induction pts arbitrary: s)
  case Nil
  then show ?case by simp
next
  case (Cons pt pts)
  from Cons.prems(1) have lpt: "length pt = N" by simp
  have R_refl: "R u u" for u using hf unfolding history_free_def by blast
  have R_trans: "R u v \<Longrightarrow> R v w \<Longrightarrow> R u w" for u v w
    using hf unfolding history_free_def by blast
  have R_dom: "R u v \<Longrightarrow> dom (fst u) = dom (fst v)" for u v
    using hf unfolding history_free_def by blast
  have R_fit: "R (snd (fit u)) u" for u using hf unfolding history_free_def by blast
  have R_chi: "R u v \<Longrightarrow> fst (fit u) = fst (fit v)" for u v
    using hf unfolding history_free_def by blast
  have sp: "set_point_model (fst s) (enumerate 0 ns) pt = Inr (fst (at_point ns pt s))"
    using names len lpt Cons.prems(2)
    by (simp add: set_point_model_dom at_point_def)
  have ap: "(fst (at_point ns pt s), snd s) = at_point ns pt s"
    by (simp add: at_point_def)
  let ?s1 = "snd (fit (at_point ns pt s))"
  have chi: "fst (fit (at_point ns pt s)) = fst (fit (at_point ns pt base))"
    using Cons.prems(3) lpt by (intro R_chi) simp
  have dom1: "dom (fst ?s1) = dom (fst base)"
    using R_dom [OF R_fit [of "at_point ns pt s"]] Cons.prems(2) by (simp add: at_point_def)
  have inv1: "\<forall>pt'. length pt' = N \<longrightarrow> R (at_point ns pt' ?s1) (at_point ns pt' base)"
  proof (intro allI impI)
    fix pt' :: "real list"
    assume lp: "length pt' = N"
    have "R (at_point ns pt' ?s1) (at_point ns pt' (at_point ns pt s))"
      unfolding at_point_def [of ns pt' ?s1] at_point_def [of ns pt' "at_point ns pt s"]
      by (rule history_free_fold [OF hf R_fit])
    also have "at_point ns pt' (at_point ns pt s) = at_point ns pt' s"
      using len lp lpt by (simp add: at_point_override)
    finally have "R (at_point ns pt' ?s1) (at_point ns pt' s)" .
    moreover have "R (at_point ns pt' s) (at_point ns pt' base)"
      using Cons.prems(3) lp by simp
    ultimately show "R (at_point ns pt' ?s1) (at_point ns pt' base)" by (rule R_trans)
  qed
  from Cons.prems(1) have "\<forall>pt \<in> set pts. length pt = N" by simp
  from Cons.IH [OF this dom1 inv1] obtain s' where
    "grid_loop_model fit ?s1 ns pts = Inr (map (\<lambda>pt. fst (fit (at_point ns pt base))) pts, s')"
    by blast
  then show ?case by (simp add: sp ap chi)
qed

lemma point_chisq_dom:
  assumes "set ns \<subseteq> dom (fst s)" and "length ns \<le> length pt"
  shows "point_chisq fit s ns pt = Inr (fst (fit (at_point ns pt (fold upd_f ns (fst s), snd s))))"
  using assms by (simp add: point_chisq_def freeze_and_set_model_dom at_point_def)

section \<open>The parallel and the serial grid\<close>

lemma collect_Inr_map: "collect rs = Inr xs \<Longrightarrow> map Inr xs = rs"
proof (induction rs arbitrary: xs)
  case Nil
  then show ?case by simp
next
  case (Cons r rs)
  then show ?case
    by (cases r; cases "collect rs") auto
qed

lemma grid_heap_wf: "wf_fitter grid_heap 0"
  by (simp add: wf_fitter_def grid_heap_def)

lemma grid_heap_names: "set [''M2''] \<subseteq> dom (fst (contents grid_heap 0))"
  by (simp add: contents_def grid_heap_def)

lemma halfway_mp:
  "chisq_of (grid_chisq_mp halfway_fit grid_heap 0 [''M2''] [[0, 4]])
     = Inr \<lparr>shape = [2], flat = [16, 4]\<rparr>"
  by (simp add: chisq_of_def grid_chisq_mp_def grid_doonefit_def deepcopy_fitter_def
      deepcopy_model_def get_fitter_def get_model_def set_frozen_def set_quantity_def
      fit_toas_def halfway_fit_def grid_heap_def Let_def)

lemma halfway_serial:
  "chisq_of (grid_chisq halfway_fit grid_heap 0 [''M2''] [[0, 4]])
     = Inr \<lparr>shape = [2], flat = [16, 0]\<rparr>"
  by (simp add: chisq_of_def grid_chisq_def deepcopy_model_def get_fitter_def get_model_def
      set_frozen_def set_quantity_def fit_toas_def halfway_fit_def grid_heap_def Let_def)

lemma converged_history_free: "history_free converged_fit same_but_F0"
  unfolding history_free_def
proof (intro conjI allI impI)
  fix s :: "tmodel \<times> unit"
  show "same_but_F0 s s" by (simp add: same_but_F0_def)
next
  fix s t u :: "tmodel \<times> unit"
  assume "same_but_F0 s t" and "same_but_F0 t u"
  then show "same_but_F0 s u" by (simp add: same_but_F0_def)
next
  fix s t :: "tmodel \<times> unit"
  assume "same_but_F0 s t"
  then show "dom (fst s) = dom (fst t)" by (simp add: same_but_F0_def)
next
  fix s t :: "tmodel \<times> unit" and z :: "string \<times> real"
  assume R: "same_but_F0 s t"
  obtain n v where z: "z = (n, v)" by (cases z)
  from R have d: "dom (fst s) = dom (fst t)"
    and e: "(fst s)(''F0'' := None) = (fst t)(''F0'' := None)"
    by (simp_all add: same_but_F0_def)
  have pt: "x \<noteq> ''F0'' \<Longrightarrow> fst s x = fst t x" for x
    using fun_cong [OF e, of x] by simp
  have "(upd_q z (fst s))(''F0'' := None) = (upd_q z (fst t))(''F0'' := None)"
  proof
    fix x
    show "((upd_q z (fst s))(''F0'' := None)) x = ((upd_q z (fst t))(''F0'' := None)) x"
      using pt [of x] by (cases "x = ''F0''") (auto simp add: z upd_q_apply)
  qed
  then show "same_but_F0 (upd_q z (fst s), snd s) (upd_q z (fst t), snd t)"
    using d by (simp add: same_but_F0_def)
next
  fix s :: "tmodel \<times> unit"
  obtain m a where s: "s = (m, a)" by (cases s)
  show "same_but_F0 (snd (converged_fit s)) s"
    by (auto simp add: s converged_fit_def same_but_F0_def split: option.splits)
next
  fix s t :: "tmodel \<times> unit"
  assume R: "same_but_F0 s t"
  obtain m a where s: "s = (m, a)" by (cases s)
  obtain m' a' where t: "t = (m', a')" by (cases t)
  from R have d: "dom m = dom m'" and e: "m(''F0'' := None) = m'(''F0'' := None)"
    by (simp_all add: same_but_F0_def s t)
  have M2: "m ''M2'' = m' ''M2''" using fun_cong [OF e, of "''M2''"] by simp
  have "''F0'' \<in> dom m \<longleftrightarrow> ''F0'' \<in> dom m'" using d by simp
  then have F0: "m ''F0'' = None \<longleftrightarrow> m' ''F0'' = None" by (simp only: domIff) blast
  show "fst (converged_fit s) = fst (converged_fit t)"
    using M2 F0 by (auto simp add: s t converged_fit_def split: option.splits)
qed

text \<open>
  C5 as the specification states it: for every deterministic fitter the parallel grid
  equals the serial grid. With the fitter that takes one damped step per call, on the grid
  \<open>M2 = 0, 4\<close>, the parallel grid is \<open>[16, 4]\<close> and the serial grid is \<open>[16, 0]\<close>: the second
  serial fit starts from the \<open>F0\<close> that the first one left in the shared model.
\<close>

theorem grid_chisq_mp_differs_from_serial:
  "chisq_of (grid_chisq_mp halfway_fit grid_heap 0 [''M2''] [[0, 4]])
     = Inr \<lparr>shape = [2], flat = [16, 4]\<rparr>
   \<and> chisq_of (grid_chisq halfway_fit grid_heap 0 [''M2''] [[0, 4]])
       = Inr \<lparr>shape = [2], flat = [16, 0]\<rparr>
   \<and> chisq_of (grid_chisq_mp halfway_fit grid_heap 0 [''M2''] [[0, 4]])
       \<noteq> chisq_of (grid_chisq halfway_fit grid_heap 0 [''M2''] [[0, 4]])"
  by (simp add: halfway_mp halfway_serial)

text \<open>
  C5, amended. Let the fitter be an object of the heap, let every listed name be a
  parameter of its model, let there be at least as many value grids as names, and let the
  chi-squared of \<open>fit\<close> not depend on what earlier fits left behind (\<open>history_free\<close>). Then
  the parallel and the serial function hand the caller the same result: the same array
  with the same placement, or the same exception.
\<close>

theorem grid_chisq_mp_eq_serial:
  assumes wf: "wf_fitter h ftr"
    and names: "set parnames \<subseteq> dom (fst (contents h ftr))"
    and len: "length parnames \<le> length parvalues"
    and hf: "history_free fit R"
  shows "chisq_of (grid_chisq_mp fit h ftr parnames parvalues)
           = chisq_of (grid_chisq fit h ftr parnames parvalues)"
proof -
  let ?s = "contents h ftr"
  let ?base = "(fold upd_f parnames (fst ?s), snd ?s)"
  let ?pts = "grid_points parvalues"
  let ?g = "\<lambda>pt. fst (fit (at_point parnames pt ?base))"
  have lens: "\<forall>pt \<in> set ?pts. length pt = length parvalues"
    by (simp add: grid_points_length)
  have pc: "map (point_chisq fit ?s parnames) ?pts = map (\<lambda>pt. Inr (?g pt)) ?pts"
    using names len lens by (intro map_cong refl point_chisq_dom) simp_all
  have mp: "chisq_of (grid_chisq_mp fit h ftr parnames parvalues) =
           (if parvalues = [] then Inl IndexError
            else if ?pts = [] then Inl ValueError
            else Inr \<lparr>shape = grid_shape parvalues, flat = map ?g ?pts\<rparr>)"
    by (simp add: grid_chisq_mp_value [OF wf] pc collect_Inr)
  have R_refl: "R u u" for u using hf unfolding history_free_def by blast
  have "\<exists>s'. grid_loop_model fit ?base parnames ?pts = Inr (map ?g ?pts, s')"
    using names len lens
    by (intro grid_loop_model_history_free [OF hf, where N = "length parvalues"])
      (simp_all add: R_refl)
  then obtain s' where loop: "grid_loop_model fit ?base parnames ?pts = Inr (map ?g ?pts, s')"
    by blast
  have ser: "chisq_of (grid_chisq fit h ftr parnames parvalues) =
           (if parvalues = [] then Inl IndexError
            else if ?pts = [] then Inl ValueError
            else Inr \<lparr>shape = grid_shape parvalues, flat = map ?g ?pts\<rparr>)"
    using names by (simp add: grid_chisq_steps [OF wf] freeze_all_model_dom loop chisq_of_def)
  from mp ser show ?thesis by simp
qed

theorem grid_chisq_mp_eq_serial_witness:
  "wf_fitter grid_heap 0
   \<and> set [''M2''] \<subseteq> dom (fst (contents grid_heap 0))
   \<and> length [''M2''] \<le> length [[0, 4 :: real]]
   \<and> history_free converged_fit same_but_F0
   \<and> chisq_of (grid_chisq_mp converged_fit grid_heap 0 [''M2''] [[0, 4]])
       = chisq_of (grid_chisq converged_fit grid_heap 0 [''M2''] [[0, 4]])"
proof -
  have l: "length [''M2''] \<le> length [[0, 4 :: real]]" by simp
  from grid_chisq_mp_eq_serial [OF grid_heap_wf grid_heap_names l converged_history_free]
    grid_heap_wf grid_heap_names l converged_history_free
  show ?thesis by blast
qed

section \<open>Independence of the grid-point fits\<close>

lemma extends_fitter: "extends h h' \<Longrightarrow> wf_fitter h ftr \<Longrightarrow> fitters h' ! ftr = fitters h ! ftr"
  by (simp add: extends_def wf_fitter_def prefix_nth)

lemma grid_chisq_mp_values:
  assumes "wf_fitter h ftr"
    and "grid_chisq_mp fit h ftr parnames parvalues = Inr (g, h')"
  shows "map Inr (flat g)
           = map (point_chisq fit (contents h ftr) parnames) (grid_points parvalues)"
proof -
  from assms(2) have "chisq_of (grid_chisq_mp fit h ftr parnames parvalues) = Inr g"
    by (simp add: chisq_of_def)
  then have "\<exists>rs. collect (map (point_chisq fit (contents h ftr) parnames)
                            (grid_points parvalues)) = Inr rs \<and> flat g = rs"
    unfolding grid_chisq_mp_value [OF assms(1)]
    by (auto simp add: bindE_def split: if_splits sum.splits)
  then show ?thesis by (auto dest: collect_Inr_map)
qed

lemma grid_chisq_restores:
  assumes "wf_fitter h ftr"
    and "grid_chisq fit h ftr parnames parvalues = Inr (g, h')"
  shows "model (fitters h' ! ftr) = model (fitters h ! ftr)"
    and "prefix (tmodels h) (tmodels h')"
    and "length (fitters h') = length (fitters h)"
    and "\<forall>r. r \<noteq> ftr \<longrightarrow> fitters h' ! r = fitters h ! r"
proof -
  from assms(2) obtain s' where
    h': "h' = h\<lparr>tmodels := tmodels h @ [fst s'],
                 fitters := (fitters h)[ftr := (fitters h ! ftr)\<lparr>rest := snd s'\<rparr>]\<rparr>"
    unfolding grid_chisq_steps [OF assms(1)]
    by (auto simp add: bindE_def split: if_splits sum.splits prod.splits)
  from assms(1) have lt: "ftr < length (fitters h)" by (simp add: wf_fitter_def)
  show "model (fitters h' ! ftr) = model (fitters h ! ftr)" using lt by (simp add: h')
  show "prefix (tmodels h) (tmodels h')" by (simp add: h')
  show "length (fitters h') = length (fitters h)" by (simp add: h')
  show "\<forall>r. r \<noteq> ftr \<longrightarrow> fitters h' ! r = fitters h ! r" by (simp add: h')
qed

lemma grid_doonefit_any_heap:
  assumes "wf_fitter h ftr" and "extends h h1"
    and "grid_doonefit fit h1 ftr parnames pt = Inr (chi, h2)"
  shows "point_chisq fit (contents h ftr) parnames pt = Inr chi \<and> extends h1 h2"
proof -
  have wf1: "wf_fitter h1 ftr" using assms(2,1) by (rule extends_wf)
  have c1: "contents h1 ftr = contents h ftr" using assms(2,1) by (rule extends_contents)
  from grid_doonefit_value [OF wf1, of fit parnames pt] assms(3) c1
  show ?thesis by simp
qed

lemma chisq_of_Inr: "chisq_of r = Inr g \<Longrightarrow> \<exists>h'. r = Inr (g, h')"
  by (auto simp add: chisq_of_def split: sum.splits)

lemma halfway_worker:
  "\<exists>h2. grid_doonefit halfway_fit grid_heap 0 [''M2''] [4] = Inr (4, h2)"
  by (simp add: grid_doonefit_def deepcopy_fitter_def deepcopy_model_def get_fitter_def
      get_model_def set_frozen_def set_quantity_def fit_toas_def halfway_fit_def
      grid_heap_def)

text \<open>
  C6. Let the fitter be an object of the heap. Whenever \<open>grid_chisq_mp\<close> returns, every
  object that existed before, the caller's fitter and its model among them, is as it was;
  entry \<open>j\<close> of the result is the chi-squared of one fit that starts from the caller's
  fitter state with the parameters frozen at grid point \<open>j\<close>, a function of that state, the
  names and the point alone. A worker call returns that same value on any heap that
  earlier worker calls may have extended, so neither the other grid points nor the order
  of evaluation matter. Whenever the serial \<open>grid_chisq\<close> returns, the fitter refers to its
  original model object again, the model objects that existed before are as they were,
  and no other fitter has changed.
\<close>

theorem grid_fits_independent:
  assumes "wf_fitter h ftr"
  shows "(\<forall>g h'. grid_chisq_mp fit h ftr parnames parvalues = Inr (g, h') \<longrightarrow>
            extends h h' \<and> fitters h' ! ftr = fitters h ! ftr
            \<and> contents h' ftr = contents h ftr
            \<and> map Inr (flat g)
                = map (point_chisq fit (contents h ftr) parnames) (grid_points parvalues))
       \<and> (\<forall>h1 pt chi h2. extends h h1 \<longrightarrow>
            grid_doonefit fit h1 ftr parnames pt = Inr (chi, h2) \<longrightarrow>
            point_chisq fit (contents h ftr) parnames pt = Inr chi \<and> extends h1 h2)
       \<and> (\<forall>g h'. grid_chisq fit h ftr parnames parvalues = Inr (g, h') \<longrightarrow>
            model (fitters h' ! ftr) = model (fitters h ! ftr)
            \<and> prefix (tmodels h) (tmodels h')
            \<and> length (fitters h') = length (fitters h)
            \<and> (\<forall>r. r \<noteq> ftr \<longrightarrow> fitters h' ! r = fitters h ! r))"
proof (intro conjI allI impI)
  fix g h'
  assume mp: "grid_chisq_mp fit h ftr parnames parvalues = Inr (g, h')"
  show ext: "extends h h'" using assms mp by (rule grid_chisq_mp_frame)
  show "fitters h' ! ftr = fitters h ! ftr" using ext assms by (rule extends_fitter)
  show "contents h' ftr = contents h ftr" using ext assms by (rule extends_contents)
  show "map Inr (flat g)
          = map (point_chisq fit (contents h ftr) parnames) (grid_points parvalues)"
    using assms mp by (rule grid_chisq_mp_values)
next
  fix h1 pt chi h2
  assume "extends h h1" and "grid_doonefit fit h1 ftr parnames pt = Inr (chi, h2)"
  with assms have "point_chisq fit (contents h ftr) parnames pt = Inr chi \<and> extends h1 h2"
    by (rule grid_doonefit_any_heap)
  then show "point_chisq fit (contents h ftr) parnames pt = Inr chi" and "extends h1 h2"
    by simp_all
next
  fix g h'
  assume ser: "grid_chisq fit h ftr parnames parvalues = Inr (g, h')"
  note r = grid_chisq_restores [OF assms ser]
  show "model (fitters h' ! ftr) = model (fitters h ! ftr)" by (rule r(1))
  show "prefix (tmodels h) (tmodels h')" by (rule r(2))
  show "length (fitters h') = length (fitters h)" by (rule r(3))
  fix r' assume "r' \<noteq> ftr"
  with r(4) show "fitters h' ! r' = fitters h ! r'" by simp
qed


theorem grid_fits_independent_witness:
  "wf_fitter grid_heap 0
   \<and> (\<exists>g h'. grid_chisq_mp halfway_fit grid_heap 0 [''M2''] [[0, 4]] = Inr (g, h')
          \<and> extends grid_heap h' \<and> fitters h' ! 0 = fitters grid_heap ! 0
          \<and> contents h' 0 = contents grid_heap 0
          \<and> map Inr (flat g)
              = map (point_chisq halfway_fit (contents grid_heap 0) [''M2''])
                  (grid_points [[0, 4]]))
   \<and> (\<exists>chi h2. extends grid_heap grid_heap
          \<and> grid_doonefit halfway_fit grid_heap 0 [''M2''] [4] = Inr (chi, h2)
          \<and> point_chisq halfway_fit (contents grid_heap 0) [''M2''] [4] = Inr chi
          \<and> extends grid_heap h2)
   \<and> (\<exists>g h'. grid_chisq halfway_fit grid_heap 0 [''M2''] [[0, 4]] = Inr (g, h')
          \<and> model (fitters h' ! 0) = model (fitters grid_heap ! 0)
          \<and> prefix (tmodels grid_heap) (tmodels h')
          \<and> length (fitters h') = length (fitters grid_heap)
          \<and> (\<forall>r. r \<noteq> 0 \<longrightarrow> fitters h' ! r = fitters grid_heap ! r))"
proof -
  note t = grid_fits_independent [OF grid_heap_wf, of halfway_fit "[''M2'']" "[[0, 4]]"]
  from chisq_of_Inr [OF halfway_mp] obtain h1 where
    mp: "grid_chisq_mp halfway_fit grid_heap 0 [''M2''] [[0, 4]]
           = Inr (\<lparr>shape = [2], flat = [16, 4]\<rparr>, h1)"
    by blast
  from halfway_worker obtain h2 where
    w: "grid_doonefit halfway_fit grid_heap 0 [''M2''] [4] = Inr (4, h2)"
    by blast
  from chisq_of_Inr [OF halfway_serial] obtain h3 where
    ser: "grid_chisq halfway_fit grid_heap 0 [''M2''] [[0, 4]]
            = Inr (\<lparr>shape = [2], flat = [16, 0]\<rparr>, h3)"
    by blast
  have e: "extends grid_heap grid_heap" by simp
  from t mp have a: "\<exists>g h'. grid_chisq_mp halfway_fit grid_heap 0 [''M2''] [[0, 4]] = Inr (g, h')
          \<and> extends grid_heap h' \<and> fitters h' ! 0 = fitters grid_heap ! 0
          \<and> contents h' 0 = contents grid_heap 0
          \<and> map Inr (flat g)
              = map (point_chisq halfway_fit (contents grid_heap 0) [''M2''])
                  (grid_points [[0, 4]])"
    by blast
  from t e w have b: "\<exists>chi h2. extends grid_heap grid_heap
          \<and> grid_doonefit halfway_fit grid_heap 0 [''M2''] [4] = Inr (chi, h2)
          \<and> point_chisq halfway_fit (contents grid_heap 0) [''M2''] [4] = Inr chi
          \<and> extends grid_heap h2"
    by blast
  from t ser have c: "\<exists>g h'. grid_chisq halfway_fit grid_heap 0 [''M2''] [[0, 4]] = Inr (g, h')
          \<and> model (fitters h' ! 0) = model (fitters grid_heap ! 0)
          \<and> prefix (tmodels grid_heap) (tmodels h')
          \<and> length (fitters h') = length (fitters grid_heap)
          \<and> (\<forall>r. r \<noteq> 0 \<longrightarrow> fitters h' ! r = fitters grid_heap ! r)"
    by blast
  from grid_heap_wf a b c show ?thesis by blast
qed

section \<open>Facts about the alternative solutions\<close>

subsection \<open>The float remainder\<close>

lemma c_fmod_bounds:
  assumes "0 < m"
  shows "- m < c_fmod x m" and "c_fmod x m < m"
    and "0 \<le> x \<Longrightarrow> 0 \<le> c_fmod x m" and "x < 0 \<Longrightarrow> c_fmod x m \<le> 0"
proof -
  define q where "q = x / m"
  have x: "x = m * q" using assms by (simp add: q_def)
  define t :: int where "t = (if 0 \<le> q then \<lfloor>q\<rfloor> else \<lceil>q\<rceil>)"
  have r: "c_fmod x m = m * (q - of_int t)"
    by (simp add: c_fmod_def q_def [symmetric] t_def x algebra_simps)
  have lo: "- 1 < q - of_int t" unfolding t_def by (cases "0 \<le> q") (simp; linarith)+
  have hi: "q - of_int t < 1" unfolding t_def by (cases "0 \<le> q") (simp; linarith)+
  have "m * (- 1) < m * (q - of_int t)"
    using lo assms by (intro mult_strict_left_mono) simp_all
  then show "- m < c_fmod x m" by (simp add: r)
  have "m * (q - of_int t) < m * 1"
    using hi assms by (intro mult_strict_left_mono) simp_all
  then show "c_fmod x m < m" by (simp add: r)
  show "0 \<le> c_fmod x m" if "0 \<le> x"
  proof -
    from that assms have "0 \<le> q" by (simp add: q_def)
    then have "0 \<le> q - of_int t" by (simp add: t_def)
    with assms show ?thesis by (simp add: r)
  qed
  show "c_fmod x m \<le> 0" if "x < 0"
  proof -
    from that assms have "q < 0" by (simp add: q_def field_simps)
    then have "q - of_int t \<le> 0" by (simp add: t_def)
    with assms show ?thesis by (simp add: r mult_le_0_iff)
  qed
qed

lemma py_mod_range:
  assumes "0 < m" and "\<And>a b. a \<le> b \<Longrightarrow> rnd a \<le> rnd b" and "rnd 0 = 0" and "rnd m = m"
  shows "0 \<le> py_mod rnd x m" and "py_mod rnd x m \<le> m"
proof -
  let ?r = "c_fmod x m"
  note b = c_fmod_bounds [OF assms(1), of x]
  have neg: "0 \<le> rnd (?r + m) \<and> rnd (?r + m) \<le> m" if "?r < 0"
  proof -
    have a1: "0 \<le> ?r + m" and a2: "?r + m \<le> m" using b(1) that by simp_all
    from assms(2) [OF a1] assms(2) [OF a2] show ?thesis by (simp add: assms(3,4))
  qed
  show "0 \<le> py_mod rnd x m"
    using neg b(2) assms(1) by (cases "?r < 0") (simp_all add: py_mod_def Let_def)
  show "py_mod rnd x m \<le> m"
    using neg b(2) assms(1) by (cases "?r < 0") (simp_all add: py_mod_def Let_def)
qed

lemma py_mod_reaches_divisor:
  "py_mod rnd44 (180 - (180 + 1 / 2 ^ 45)) 360 = 360"
proof -
  have c: "\<lceil>- (1 / (360 * 2 ^ 45)) :: real\<rceil> = 0"
    by (rule ceiling_unique) simp_all
  have f: "c_fmod (- (1 / 2 ^ 45)) 360 = - (1 / 2 ^ 45)"
    using c by (simp add: c_fmod_def)
  have "round ((360 - 1 / 2 ^ 45) * 2 ^ 44 :: real) = 360 * 2 ^ 44"
    by (rule round_unique) simp_all
  then have "rnd44 (- (1 / 2 ^ 45) + 360) = 360"
    by (simp add: rnd44_def)
  with f show ?thesis by (simp add: py_mod_def)
qed

subsection \<open>The four pairs\<close>

lemma alternative_solutions_value:
  assumes "PMLAT_DDK_quantity self = Inr (Some pmlat)"
    and "PMLONG_DDK_quantity self = Inr (Some pmlong)"
    and "KIN self = Some x0" and "KOM self = Some y0"
  shows "alternative_solutions rnd self =
           Inr [(x0, y0),
                (x0, py_mod rnd (2 * (py_arctan2 pmlat pmlong * 180 / pi) - y0 - 180) 360),
                (py_mod rnd (180 - x0) 360,
                 py_mod rnd (2 * (py_arctan2 pmlat pmlong * 180 / pi) - y0) 360),
                (py_mod rnd (180 - x0) 360, py_mod rnd (y0 + 180) 360)]"
  using assms by (simp add: alternative_solutions_def Let_def)

lemma ddk_equatorial_pm:
  "PMLAT_DDK_quantity (ddk_equatorial kin kom) = Inr (Some 1)"
  "PMLONG_DDK_quantity (ddk_equatorial kin kom) = Inr (Some 1)"
  "KIN (ddk_equatorial kin kom) = Some kin"
  "KOM (ddk_equatorial kin kom) = Some kom"
  by (simp_all add: PMLAT_DDK_quantity_def PMLONG_DDK_quantity_def parent_quantity_def
      ddk_equatorial_def)

text \<open>
  C10. The specification, like the docstring of the function, asks for four pairs, the
  first the current \<open>(KIN, KOM)\<close>, with every value of every pair between 0 and 360
  degrees. For a model with \<open>KIN = 70\<close> and \<open>KOM = -30\<close> degrees the function returns four
  pairs whose first is \<open>(70, -30)\<close>, whatever the rounding: the current values are handed
  on without the reduction modulo 360 that every computed angle gets, so not every value
  is in the interval.
\<close>

theorem alternative_solutions_out_of_circle:
  "(case alternative_solutions rnd (ddk_equatorial 70 (- 30)) of
      Inr sols \<Rightarrow> length sols = 4 \<and> hd sols = (70, - 30) \<and> \<not> list_all in_circle sols
    | Inl e \<Rightarrow> False)"
  by (simp add: alternative_solutions_value [OF ddk_equatorial_pm] in_circle_def)

end
